theory Spec2Isabelle
  imports Complex_Main
begin

section \<open>Python floats\<close>

text \<open>
  A Python \<open>float\<close> is an IEEE 754 binary64 value: a finite number, one of the two
  infinities, or NaN. Finite values carry their exact rational value. The two zeros
  compare equal and are one value here; nothing in the code below divides by a float or
  prints a sign of zero.
\<close>

datatype pyfloat = NaN | NInf | Fin rat | PInf

text \<open>The comparisons \<open><\<close> and \<open>></\<close> of Python floats: false as soon as one side is NaN.\<close>

fun flt_less :: "pyfloat \<Rightarrow> pyfloat \<Rightarrow> bool" where
  "flt_less NaN _ = False"
| "flt_less _ NaN = False"
| "flt_less NInf NInf = False"
| "flt_less NInf _ = True"
| "flt_less (Fin x) (Fin y) = (x < y)"
| "flt_less (Fin x) PInf = True"
| "flt_less (Fin x) NInf = False"
| "flt_less PInf _ = False"

definition flt_greater :: "pyfloat \<Rightarrow> pyfloat \<Rightarrow> bool" where
  "flt_greater a b = flt_less b a"

text \<open>Powers of two with an integer exponent, and the binary exponent of a positive rational.\<close>

definition pow2 :: "int \<Rightarrow> rat" where
  "pow2 e = (if 0 \<le> e then 2 ^ nat e else 1 / 2 ^ nat (- e))"

function bit_length :: "int \<Rightarrow> int" where
  "bit_length n = (if n \<le> 0 then 0 else 1 + bit_length (n div 2))"
  by pat_completeness auto
termination
  by (relation "measure nat") auto

declare bit_length.simps [simp del]

text \<open>\<open>binary_exponent q\<close> is the \<open>e\<close> with \<open>2 ^ e \<le> q < 2 ^ (e + 1)\<close>, for \<open>q > 0\<close>.\<close>

definition binary_exponent :: "rat \<Rightarrow> int" where
  "binary_exponent q =
     (let (a, b) = quotient_of q;
          e0 = bit_length a - bit_length b
      in if pow2 e0 \<le> q then e0 else e0 - 1)"

definition round_half_even :: "rat \<Rightarrow> int" where
  "round_half_even q =
     (let f = \<lfloor>q\<rfloor>; d = q - of_int f
      in if d < 1 / 2 then f
         else if 1 / 2 < d then f + 1
         else if even f then f else f + 1)"

text \<open>
  Rounding an exact result to binary64, to nearest with ties to even: 53 significant
  bits, subnormals below \<open>2 ^ -1022\<close>. The rounded magnitude is \<open>\<bar>m\<bar> * 2 ^ (e - 52)\<close> with
  \<open>\<bar>m\<bar> \<le> 2 ^ 53\<close>, so it reaches \<open>2 ^ 1024\<close>, where binary64 overflows to an infinity,
  exactly when \<open>e \<ge> 1024\<close>, or \<open>e = 1023\<close> and \<open>\<bar>m\<bar> = 2 ^ 53\<close>.
\<close>

definition round_double :: "rat \<Rightarrow> pyfloat" where
  "round_double q =
     (if q = 0 then Fin 0
      else let e = max (binary_exponent \<bar>q\<bar>) (- 1022);
               quantum = pow2 (e - 52);
               m = round_half_even (q / quantum)
           in if 1024 \<le> e \<or> (e = 1023 \<and> \<bar>m\<bar> = 2 ^ 53)
              then (if 0 < q then PInf else NInf)
              else Fin (of_int m * quantum))"

text \<open>Float addition: the exact sum, rounded; \<open>inf + (-inf)\<close> is NaN.\<close>

fun flt_add :: "pyfloat \<Rightarrow> pyfloat \<Rightarrow> pyfloat" where
  "flt_add NaN _ = NaN"
| "flt_add _ NaN = NaN"
| "flt_add PInf NInf = NaN"
| "flt_add NInf PInf = NaN"
| "flt_add PInf _ = PInf"
| "flt_add _ PInf = PInf"
| "flt_add NInf _ = NInf"
| "flt_add _ NInf = NInf"
| "flt_add (Fin x) (Fin y) = round_double (x + y)"

section \<open>EarlyStopper (src/src/train.py)\<close>

record EarlyStopper =
  patience :: int
  min_delta :: pyfloat
  counter :: int
  min_validation_loss :: pyfloat

text \<open>\<open>EarlyStopper.__init__\<close>\<close>

definition EarlyStopper_init :: "int \<Rightarrow> pyfloat \<Rightarrow> EarlyStopper" where
  "EarlyStopper_init p d =
     \<lparr>patience = p, min_delta = d, counter = 0, min_validation_loss = PInf\<rparr>"

text \<open>
  \<open>EarlyStopper.early_stop\<close>: the object after the call and the value returned.
\<close>

definition early_stop :: "EarlyStopper \<Rightarrow> pyfloat \<Rightarrow> EarlyStopper \<times> bool" where
  "early_stop s validation_loss =
     (if flt_less validation_loss (min_validation_loss s) then
        (s\<lparr>min_validation_loss := validation_loss, counter := 0\<rparr>, False)
      else if flt_greater validation_loss (flt_add (min_validation_loss s) (min_delta s)) then
        (let s' = s\<lparr>counter := counter s + 1\<rparr>
         in if patience s' \<le> counter s' then (s', True) else (s', False))
      else (s, False))"

text \<open>A sequence of calls on one object: the object at the end and each returned value.\<close>

fun early_stop_calls :: "EarlyStopper \<Rightarrow> pyfloat list \<Rightarrow> EarlyStopper \<times> bool list" where
  "early_stop_calls s [] = (s, [])"
| "early_stop_calls s (v # vs) =
     (let (s', b) = early_stop s v; (s'', bs) = early_stop_calls s' vs in (s'', b # bs))"

section \<open>Errors and the remaining float operations\<close>

text \<open>
  The Python exceptions that the modelled code can raise. \<open>TorchDeviceError\<close> stands for
  what torch raises when something cannot be moved to a device, and \<open>TensorError\<close> for
  what \<open>torch.tensor\<close> raises on data it cannot store (torch uses a RuntimeError, a
  ValueError or a TypeError for these, depending on the case).
\<close>

datatype error =
  ZeroDivisionError | IndexError | KeyError | TorchDeviceError | TensorError | OSError | ValueError

text \<open>
  \<open>x / n\<close> for a float \<open>x\<close> and the \<open>int\<close> \<open>n = len(loader)\<close>: ZeroDivisionError when
  \<open>n = 0\<close>, otherwise the exact quotient, rounded. (The \<open>int\<close> is first converted to
  a float; a length is below \<open>2 ^ 53\<close>, so that conversion is exact.)
\<close>

definition flt_div_len :: "pyfloat \<Rightarrow> nat \<Rightarrow> error + pyfloat" where
  "flt_div_len x n =
     (if n = 0 then Inl ZeroDivisionError
      else Inr (case x of Fin a \<Rightarrow> round_double (a / of_nat n) | _ \<Rightarrow> x))"

text \<open>
  \<open>round(x, 4)\<close> on a float: the exact value rounded to four decimals, ties to even,
  then to the nearest double; NaN and the infinities are returned as they are.
\<close>

definition py_round4 :: "pyfloat \<Rightarrow> pyfloat" where
  "py_round4 x =
     (case x of Fin a \<Rightarrow> round_double (of_int (round_half_even (a * 10000)) / 10000) | _ \<Rightarrow> x)"

text \<open>
  Rounding to binary32, the default element type of a float tensor: as for binary64,
  with 24 significant bits, subnormals below \<open>2 ^ -126\<close> and overflow from \<open>2 ^ 128\<close> on.
\<close>

definition round_single :: "rat \<Rightarrow> pyfloat" where
  "round_single q =
     (if q = 0 then Fin 0
      else let e = max (binary_exponent \<bar>q\<bar>) (- 126);
               quantum = pow2 (e - 23);
               m = round_half_even (q / quantum)
           in if 128 \<le> e \<or> (e = 127 \<and> \<bar>m\<bar> = 2 ^ 24)
              then (if 0 < q then PInf else NInf)
              else Fin (of_int m * quantum))"

definition to_float32 :: "pyfloat \<Rightarrow> pyfloat" where
  "to_float32 x = (case x of Fin a \<Rightarrow> round_single a | _ \<Rightarrow> x)"

section \<open>IC50BertTrainer (src/src/train.py)\<close>

text \<open>A \<open>torch.device\<close>, by its type: \<open>cpu\<close>, \<open>cuda\<close>, or any other that torch knows.\<close>

type_synonym device = string

text \<open>
  A \<open>DataLoader\<close> as the trainer uses it: \<open>len(loader)\<close>, and the batches that the
  pass over it in a given epoch yields (the order may change from epoch to epoch).
  A loader has no \<open>__bool__\<close>, so its truth value is \<open>len(loader) != 0\<close>.
\<close>

record 'b DataLoader =
  dl_len :: nat
  dl_batches :: "nat \<Rightarrow> 'b list"

text \<open>
  The collaborators the trainer is given, over a state \<open>'m\<close> that holds the model, the
  criterion and the optimizer. Each of them may raise.
  \<open>model_to\<close> is \<open>self.model.to(device)\<close> and \<open>criterion_to\<close> is \<open>self.criterion.to(device)\<close>;
  \<open>train_batch\<close> is lines 70 to 84 for one batch (\<open>get_from_batch\<close>, which moves the
  batch to the device, \<open>zero_grad\<close>, the forward pass, the criterion, \<open>backward\<close>,
  \<open>optimizer.step\<close>) and yields \<open>loss.item()\<close>;
  \<open>eval_batch\<close> is lines 99 to 110 for one validation batch;
  \<open>cuda_is_available\<close> is what \<open>torch.cuda.is_available()\<close> returns.
\<close>

record ('m, 'b) torch_env =
  cuda_is_available :: bool
  model_to :: "'m \<Rightarrow> device \<Rightarrow> error + 'm"
  criterion_to :: "'m \<Rightarrow> device \<Rightarrow> error + 'm"
  train_batch :: "device \<Rightarrow> 'm \<Rightarrow> 'b \<Rightarrow> error + 'm \<times> pyfloat"
  eval_batch :: "device \<Rightarrow> 'm \<Rightarrow> 'b \<Rightarrow> error + 'm \<times> pyfloat"

record ('m, 'b) IC50BertTrainer =
  model :: 'm
  dataloader :: "'b DataLoader"
  val_dataloader :: "'b DataLoader option"
  num_epochs :: int
  device :: device
  early_stopper :: EarlyStopper

text \<open>
  \<open>IC50BertTrainer.__init__\<close>: it stores its arguments and builds the stopper with
  \<open>patience=10, min_delta=0.05\<close>. Nothing in it can raise.
\<close>

definition IC50BertTrainer_init ::
  "'m \<Rightarrow> 'b DataLoader \<Rightarrow> 'b DataLoader option \<Rightarrow> int \<Rightarrow> device \<Rightarrow>
     error + ('m, 'b) IC50BertTrainer" where
  "IC50BertTrainer_init m train_dataloader val_dl n dev =
     Inr \<lparr>model = m, dataloader = train_dataloader, val_dataloader = val_dl, num_epochs = n,
          device = dev, early_stopper = EarlyStopper_init 10 (round_double (1 / 20))\<rparr>"

text \<open>\<open>if self.val_dataloader:\<close>\<close>

definition val_configured :: "('m, 'b) IC50BertTrainer \<Rightarrow> bool" where
  "val_configured t = (case val_dataloader t of None \<Rightarrow> False | Some vdl \<Rightarrow> dl_len vdl \<noteq> 0)"

text \<open>
  An inner loop over the batches of one pass, from the state and the loss accumulated
  so far: \<open>total_loss += loss.item()\<close> after each batch; the first batch that raises
  ends the pass.
\<close>

fun pass_loop ::
  "('m \<Rightarrow> 'b \<Rightarrow> error + 'm \<times> pyfloat) \<Rightarrow> 'b list \<Rightarrow> 'm \<Rightarrow> pyfloat \<Rightarrow> error + 'm \<times> pyfloat" where
  "pass_loop step [] m total_loss = Inr (m, total_loss)"
| "pass_loop step (batch # rest) m total_loss =
     (case step m batch of
        Inl e \<Rightarrow> Inl e
      | Inr (m', loss) \<Rightarrow> pass_loop step rest m' (flt_add total_loss loss))"

text \<open>The training pass and the validation pass of an epoch, each from \<open>total_loss = 0\<close>.\<close>

definition train_pass ::
  "('m, 'b) torch_env \<Rightarrow> device \<Rightarrow> 'm \<Rightarrow> 'b list \<Rightarrow> error + 'm \<times> pyfloat" where
  "train_pass env dev m bs = pass_loop (train_batch env dev) bs m (Fin 0)"

definition eval_pass ::
  "('m, 'b) torch_env \<Rightarrow> device \<Rightarrow> 'm \<Rightarrow> 'b list \<Rightarrow> error + 'm \<times> pyfloat" where
  "eval_pass env dev m bs = pass_loop (eval_batch env dev) bs m (Fin 0)"

text \<open>
  For comparison with the passes: the losses of the batches of a pass, one after the
  other, each batch starting from the state the one before it left (up to the first
  batch that raises).
\<close>

fun batch_losses :: "('m \<Rightarrow> 'b \<Rightarrow> error + 'm \<times> pyfloat) \<Rightarrow> 'm \<Rightarrow> 'b list \<Rightarrow> pyfloat list" where
  "batch_losses step m [] = []"
| "batch_losses step m (batch # rest) =
     (case step m batch of
        Inl e \<Rightarrow> []
      | Inr (m', loss) \<Rightarrow> loss # batch_losses step m' rest)"

text \<open>What one epoch computes, and what the stopper answered at its end.\<close>

record epoch_trace =
  train_episode_loss :: pyfloat
  val_episode_loss :: "pyfloat option"
  stop_loss :: pyfloat
  stop_signal :: bool

text \<open>
  Lines 62 to 115, the body of the epoch loop up to the stopper: the state after the
  epoch, \<open>train_episode_loss\<close>, \<open>val_episode_loss\<close> when the validation pass ran, and
  \<open>stop_loss\<close>.
\<close>

definition run_epoch ::
  "('m, 'b) torch_env \<Rightarrow> ('m, 'b) IC50BertTrainer \<Rightarrow> nat \<Rightarrow> 'm \<Rightarrow>
     error + ('m \<times> pyfloat \<times> pyfloat option \<times> pyfloat)" where
  "run_epoch env t epoch m =
     (case train_pass env (device t) m (dl_batches (dataloader t) epoch) of
        Inl e \<Rightarrow> Inl e
      | Inr (m1, total_loss) \<Rightarrow>
          (case flt_div_len total_loss (dl_len (dataloader t)) of
             Inl e \<Rightarrow> Inl e
           | Inr train_loss \<Rightarrow>
               (case val_dataloader t of
                  None \<Rightarrow> Inr (m1, train_loss, None, train_loss)
                | Some vdl \<Rightarrow>
                    if dl_len vdl \<noteq> 0 then
                      (case eval_pass env (device t) m1 (dl_batches vdl epoch) of
                         Inl e \<Rightarrow> Inl e
                       | Inr (m2, val_total_loss) \<Rightarrow>
                           (case flt_div_len val_total_loss (dl_len vdl) of
                              Inl e \<Rightarrow> Inl e
                            | Inr val_loss \<Rightarrow> Inr (m2, train_loss, Some val_loss, val_loss)))
                    else Inr (m1, train_loss, None, train_loss))))"

text \<open>
  The state of \<open>train\<close> between epochs: the model, the stopper, the two lists of
  \<open>avg_episode_losses\<close>, and the trace of the epochs run so far.
\<close>

record 'm train_state =
  ts_model :: 'm
  ts_stopper :: EarlyStopper
  Train :: "pyfloat list"
  Validation :: "pyfloat list"
  trace :: "epoch_trace list"

text \<open>The epoch loop over \<open>range(self.num_epochs)\<close>, with its \<open>break\<close>.\<close>

fun train_loop ::
  "('m, 'b) torch_env \<Rightarrow> ('m, 'b) IC50BertTrainer \<Rightarrow> nat list \<Rightarrow> 'm train_state \<Rightarrow>
     error + 'm train_state" where
  "train_loop env t [] st = Inr st"
| "train_loop env t (epoch # rest) st =
     (case run_epoch env t epoch (ts_model st) of
        Inl e \<Rightarrow> Inl e
      | Inr (m', train_loss, val_loss, sl) \<Rightarrow>
          (let (es', stop) = early_stop (ts_stopper st) sl;
               st' = \<lparr>ts_model = m', ts_stopper = es',
                      Train = Train st @ [py_round4 train_loss],
                      Validation = (case val_loss of None \<Rightarrow> Validation st
                                    | Some v \<Rightarrow> Validation st @ [py_round4 v]),
                      trace = trace st @ [\<lparr>train_episode_loss = train_loss,
                                           val_episode_loss = val_loss,
                                           stop_loss = sl, stop_signal = stop\<rparr>]\<rparr>
           in if stop then Inr st' else train_loop env t rest st'))"

text \<open>
  \<open>IC50BertTrainer.train\<close>: the model and the criterion are moved to the device, then
  the epochs run.
\<close>

definition train ::
  "('m, 'b) torch_env \<Rightarrow> ('m, 'b) IC50BertTrainer \<Rightarrow> error + 'm train_state" where
  "train env t =
     (case model_to env (model t) (device t) of
        Inl e \<Rightarrow> Inl e
      | Inr m0 \<Rightarrow>
          (case criterion_to env m0 (device t) of
             Inl e \<Rightarrow> Inl e
           | Inr m1 \<Rightarrow>
               train_loop env t [0..<nat (num_epochs t)]
                 \<lparr>ts_model = m1, ts_stopper = early_stopper t,
                  Train = [], Validation = [], trace = []\<rparr>))"

section \<open>The earlier IC50BertTrainer (src/train.py)\<close>

record ('m, 'b) IC50BertTrainer_v1 =
  v1_model :: 'm
  v1_dataloader :: "'b DataLoader"
  v1_num_epochs :: int

text \<open>\<open>torch.device("cuda" if torch.cuda.is_available() else "cpu")\<close>\<close>

definition select_device :: "('m, 'b) torch_env \<Rightarrow> device" where
  "select_device env = (if cuda_is_available env then ''cuda'' else ''cpu'')"

fun train_loop_v1 ::
  "('m, 'b) torch_env \<Rightarrow> ('m, 'b) IC50BertTrainer_v1 \<Rightarrow> device \<Rightarrow> nat list \<Rightarrow> 'm \<Rightarrow>
     pyfloat list \<Rightarrow> error + 'm \<times> pyfloat list" where
  "train_loop_v1 env t dev [] m avg_episode_losses = Inr (m, avg_episode_losses)"
| "train_loop_v1 env t dev (epoch # rest) m avg_episode_losses =
     (case train_pass env dev m (dl_batches (v1_dataloader t) epoch) of
        Inl e \<Rightarrow> Inl e
      | Inr (m', total_loss) \<Rightarrow>
          (case flt_div_len total_loss (dl_len (v1_dataloader t)) of
             Inl e \<Rightarrow> Inl e
           | Inr average_loss \<Rightarrow>
               train_loop_v1 env t dev rest m' (avg_episode_losses @ [py_round4 average_loss])))"

definition train_v1 ::
  "('m, 'b) torch_env \<Rightarrow> ('m, 'b) IC50BertTrainer_v1 \<Rightarrow> error + 'm \<times> pyfloat list" where
  "train_v1 env t =
     (let dev = select_device env
      in case model_to env (v1_model t) dev of
           Inl e \<Rightarrow> Inl e
         | Inr m0 \<Rightarrow>
             (case criterion_to env m0 dev of
                Inl e \<Rightarrow> Inl e
              | Inr m1 \<Rightarrow> train_loop_v1 env t dev [0..<nat (v1_num_epochs t)] m1 []))"

section \<open>ProteinSMILESDataset (src/dataset.py)\<close>

text \<open>\<open>ProteinData\<close>, a NamedTuple: the types of its fields are not enforced.\<close>

record ('s, 'v) ProteinData =
  ligand :: 's
  protein :: 's
  ic50 :: 'v

text \<open>
  A pandas \<open>DataFrame\<close> as the dataset uses it: column labels, and rows of cells in the
  order of the columns.
\<close>

record 'c DataFrame =
  df_columns :: "string list"
  df_rows :: "'c list list"

text \<open>
  \<open>df.iloc[idx]\<close> with an integer: the row at that position as a Series (cells by
  label); a negative position counts from the end; IndexError when \<open>idx >= len(df)\<close> or
  \<open>idx < -len(df)\<close>.
\<close>

definition iloc :: "'c DataFrame \<Rightarrow> int \<Rightarrow> error + (string \<times> 'c) list" where
  "iloc df idx =
     (let n = int (length (df_rows df))
      in if n \<le> idx \<or> idx < - n then Inl IndexError
         else Inr (zip (df_columns df) (df_rows df ! nat (if idx < 0 then n + idx else idx))))"

text \<open>\<open>row[label]\<close>: KeyError when the Series has no such label.\<close>

definition row_get :: "(string \<times> 'c) list \<Rightarrow> string \<Rightarrow> error + 'c" where
  "row_get row label = (case map_of row label of None \<Rightarrow> Inl KeyError | Some v \<Rightarrow> Inr v)"

text \<open>\<open>ProteinSMILESDataset.__len__\<close>\<close>

definition ProteinSMILESDataset_len :: "'c DataFrame \<Rightarrow> nat" where
  "ProteinSMILESDataset_len df = length (df_rows df)"

text \<open>\<open>ProteinSMILESDataset.__getitem__\<close>\<close>

definition ProteinSMILESDataset_getitem :: "'c DataFrame \<Rightarrow> int \<Rightarrow> error + ('c, 'c) ProteinData" where
  "ProteinSMILESDataset_getitem df idx =
     (case iloc df idx of
        Inl e \<Rightarrow> Inl e
      | Inr row \<Rightarrow>
          (case row_get row ''Ligand SMILES'' of
             Inl e \<Rightarrow> Inl e
           | Inr ligand_v \<Rightarrow>
               (case row_get row ''BindingDB Target Chain Sequence'' of
                  Inl e \<Rightarrow> Inl e
                | Inr protein_v \<Rightarrow>
                    (case row_get row ''IC50 (nM)'' of
                       Inl e \<Rightarrow> Inl e
                     | Inr target_ic50 \<Rightarrow>
                         Inr \<lparr>ligand = ligand_v, protein = protein_v, ic50 = target_ic50\<rparr>))))"

text \<open>A table whose rows all have one cell per column, under distinct labels.\<close>

definition well_formed :: "'c DataFrame \<Rightarrow> bool" where
  "well_formed df =
     (distinct (df_columns df) \<and> list_all (\<lambda>r. length r = length (df_columns df)) (df_rows df))"

section \<open>TransformerCollate (src/dataset.py)\<close>

text \<open>
  A target value as a record carries it: the \<open>ic50\<close> field is annotated \<open>int\<close>, which
  Python does not enforce, so it may be an \<open>int\<close> (unbounded), a \<open>float\<close> or a \<open>str\<close>.
\<close>

datatype pyval = PyInt int | PyFloat pyfloat | PyStr string

text \<open>
  A tensor: one dimension of 64-bit integers or of 32-bit floats (what \<open>torch.tensor\<close>
  makes of a list of numbers), or two dimensions of integers (token data, as a list of
  rows); and its shape.
\<close>

datatype tensor = Int64Tensor "int list" | Float32Tensor "pyfloat list" | Tensor2 "int list list"



text \<open>
  \<open>torch.tensor(data)\<close> on a flat list. The element type is inferred from the values:
  a \<open>str\<close> anywhere raises; a list of \<open>int\<close>s only gives a tensor of 64-bit integers; a
  list with a \<open>float\<close> in it, and the empty list, give a tensor of the default float
  type, which is 32-bit. Then the values are stored one by one: into a 64-bit integer
  tensor an \<open>int\<close> outside \<open>[-2 ^ 63, 2 ^ 63)\<close> raises (an overflow); into a float tensor a
  \<open>float\<close> is rounded to 32 bits, and an \<open>int\<close> is first converted to a \<open>float\<close>, which
  raises when it is too large for one.
\<close>

fun is_str :: "pyval \<Rightarrow> bool" where
  "is_str (PyStr s) = True"
| "is_str v = False"

fun is_int :: "pyval \<Rightarrow> bool" where
  "is_int (PyInt i) = True"
| "is_int v = False"

fun unpack_long :: "pyval \<Rightarrow> error + int" where
  "unpack_long (PyInt i) = (if - (2 ^ 63) \<le> i \<and> i < 2 ^ 63 then Inr i else Inl TensorError)"
| "unpack_long v = Inl TensorError"

fun unpack_float32 :: "pyval \<Rightarrow> error + pyfloat" where
  "unpack_float32 (PyFloat x) = Inr (to_float32 x)"
| "unpack_float32 (PyInt i) =
     (case round_double (of_int i) of
        Fin a \<Rightarrow> Inr (to_float32 (Fin a))
      | _ \<Rightarrow> Inl TensorError)"
| "unpack_float32 (PyStr s) = Inl TensorError"

fun store_all :: "(pyval \<Rightarrow> error + 'a) \<Rightarrow> pyval list \<Rightarrow> error + 'a list" where
  "store_all unpack [] = Inr []"
| "store_all unpack (v # vs) =
     (case unpack v of
        Inl e \<Rightarrow> Inl e
      | Inr x \<Rightarrow> (case store_all unpack vs of Inl e \<Rightarrow> Inl e | Inr xs \<Rightarrow> Inr (x # xs)))"

definition torch_tensor :: "pyval list \<Rightarrow> error + tensor" where
  "torch_tensor data =
     (if list_ex is_str data then Inl TensorError
      else if data \<noteq> [] \<and> list_all is_int data then
        (case store_all unpack_long data of Inl e \<Rightarrow> Inl e | Inr xs \<Rightarrow> Inr (Int64Tensor xs))
      else
        (case store_all unpack_float32 data of Inl e \<Rightarrow> Inl e | Inr xs \<Rightarrow> Inr (Float32Tensor xs)))"

text \<open>
  The tokenizer is a collaborator: called with the two lists of texts and the options
  \<open>padding\<close>, \<open>truncation\<close> and \<open>return_tensors\<close>, it returns a dictionary of tensors or
  raises.
\<close>

type_synonym 's tokenizer_fn =
  "'s list \<Rightarrow> 's list \<Rightarrow> bool \<Rightarrow> bool \<Rightarrow> string \<Rightarrow> error + (string \<rightharpoonup> tensor)"

record 's TransformerCollate =
  tokenizer :: "'s tokenizer_fn"

text \<open>
  \<open>TransformerCollate.__init__\<close>, over what \<open>AutoTokenizer.from_pretrained\<close> does with a
  path.
\<close>

definition TransformerCollate_init ::
  "(string \<Rightarrow> error + 's tokenizer_fn) \<Rightarrow> string \<Rightarrow> error + 's TransformerCollate" where
  "TransformerCollate_init from_pretrained path =
     (case from_pretrained path of Inl e \<Rightarrow> Inl e | Inr tok \<Rightarrow> Inr \<lparr>tokenizer = tok\<rparr>)"

text \<open>
  \<open>TransformerCollate.__call__\<close>: the three lists, the call of the tokenizer, then the
  tensor of the targets, stored under \<open>labels\<close>. Either of the two calls may raise.
\<close>

definition TransformerCollate_call ::
  "'s TransformerCollate \<Rightarrow> ('s, pyval) ProteinData list \<Rightarrow> error + (string \<rightharpoonup> tensor)" where
  "TransformerCollate_call c batches =
     (let ligands = map ligand batches;
          proteins = map protein batches;
          target_ic50 = map ic50 batches
      in case tokenizer c ligands proteins True True ''pt'' of
           Inl e \<Rightarrow> Inl e
         | Inr encodings \<Rightarrow>
             (case torch_tensor target_ic50 of
                Inl e \<Rightarrow> Inl e
              | Inr labels \<Rightarrow> Inr (encodings(''labels'' \<mapsto> labels))))"






section \<open>Small concrete runs\<close>

text \<open>
  Collaborators for concrete runs, on a machine without CUDA: the model state counts
  the training steps taken, a batch is a number, and the loss of a batch is that number.
  Moving the model to \<open>cuda\<close> raises; everything works on any other device.
\<close>

definition example_env :: "(nat, rat) torch_env" where
  "example_env =
     \<lparr>cuda_is_available = False,
      model_to = (\<lambda>m dev. if dev = ''cuda'' then Inl TorchDeviceError else Inr m),
      criterion_to = (\<lambda>m dev. if dev = ''cuda'' then Inl TorchDeviceError else Inr m),
      train_batch = (\<lambda>dev m b. if dev = ''cuda'' then Inl TorchDeviceError else Inr (m + 1, Fin b)),
      eval_batch = (\<lambda>dev m b. if dev = ''cuda'' then Inl TorchDeviceError else Inr (m, Fin b))\<rparr>"

text \<open>One batch per epoch whose loss grows with the epoch; no validation; patience 1.\<close>

definition example_trainer :: "(nat, rat) IC50BertTrainer" where
  "example_trainer =
     \<lparr>model = 0, dataloader = \<lparr>dl_len = 1, dl_batches = (\<lambda>epoch. [of_nat epoch])\<rparr>,
      val_dataloader = None, num_epochs = 5, device = ''cpu'',
      early_stopper = EarlyStopper_init 1 (Fin 0)\<rparr>"

definition example_result :: "nat train_state" where
  "example_result =
     \<lparr>ts_model = 2,
      ts_stopper = \<lparr>patience = 1, min_delta = Fin 0, counter = 1, min_validation_loss = Fin 0\<rparr>,
      Train = [Fin 0, Fin 1], Validation = [],
      trace = [\<lparr>train_episode_loss = Fin 0, val_episode_loss = None,
                stop_loss = Fin 0, stop_signal = False\<rparr>,
               \<lparr>train_episode_loss = Fin 1, val_episode_loss = None,
                stop_loss = Fin 1, stop_signal = True\<rparr>]\<rparr>"

text \<open>
  Two training batches per epoch, losses 1 and 3, and a validation loader of two
  batches, losses 2 and 6; three epochs.
\<close>

definition example_val_trainer :: "(nat, rat) IC50BertTrainer" where
  "example_val_trainer =
     \<lparr>model = 0, dataloader = \<lparr>dl_len = 2, dl_batches = (\<lambda>epoch. [1, 3])\<rparr>,
      val_dataloader = Some \<lparr>dl_len = 2, dl_batches = (\<lambda>epoch. [2, 6])\<rparr>,
      num_epochs = 3, device = ''cpu'',
      early_stopper = EarlyStopper_init 10 (round_double (1 / 20))\<rparr>"

definition example_val_result :: "nat train_state" where
  "example_val_result =
     \<lparr>ts_model = 6,
      ts_stopper = \<lparr>patience = 10, min_delta = round_double (1 / 20), counter = 0,
                    min_validation_loss = Fin 4\<rparr>,
      Train = [Fin 2, Fin 2, Fin 2], Validation = [Fin 4, Fin 4, Fin 4],
      trace = replicate 3 \<lparr>train_episode_loss = Fin 2, val_episode_loss = Some (Fin 4),
                           stop_loss = Fin 4, stop_signal = False\<rparr>\<rparr>"

text \<open>
  The same trainer given a validation loader that has no batch (a \<open>DataLoader\<close> over an
  empty dataset), and what its run returns.
\<close>

definition example_empty_val_trainer :: "(nat, rat) IC50BertTrainer" where
  "example_empty_val_trainer =
     example_val_trainer\<lparr>val_dataloader := Some \<lparr>dl_len = 0, dl_batches = (\<lambda>epoch. [])\<rparr>\<rparr>"

definition example_empty_val_result :: "nat train_state" where
  "example_empty_val_result =
     \<lparr>ts_model = 6,
      ts_stopper = \<lparr>patience = 10, min_delta = round_double (1 / 20), counter = 0,
                    min_validation_loss = Fin 2\<rparr>,
      Train = [Fin 2, Fin 2, Fin 2], Validation = [],
      trace = replicate 3 \<lparr>train_episode_loss = Fin 2, val_episode_loss = None,
                           stop_loss = Fin 2, stop_signal = False\<rparr>\<rparr>"

text \<open>Collaborators whose training loss is NaN on every batch.\<close>

definition example_nan_env :: "(nat, rat) torch_env" where
  "example_nan_env =
     \<lparr>cuda_is_available = False,
      model_to = (\<lambda>m dev. Inr m), criterion_to = (\<lambda>m dev. Inr m),
      train_batch = (\<lambda>dev m b. Inr (m + 1, NaN)), eval_batch = (\<lambda>dev m b. Inr (m, NaN))\<rparr>"

definition example_nan_result :: "nat train_state" where
  "example_nan_result =
     \<lparr>ts_model = 5,
      ts_stopper = EarlyStopper_init 1 (Fin 0),
      Train = [NaN, NaN, NaN, NaN, NaN], Validation = [],
      trace = replicate 5 \<lparr>train_episode_loss = NaN, val_episode_loss = None,
                           stop_loss = NaN, stop_signal = False\<rparr>\<rparr>"

text \<open>
  Collaborators on a machine without CUDA whose model has nothing to move (moving it
  always works) and whose batches cannot be moved to \<open>cuda\<close>.
\<close>

definition example_late_env :: "(nat, rat) torch_env" where
  "example_late_env =
     example_env\<lparr>model_to := (\<lambda>m dev. Inr m), criterion_to := (\<lambda>m dev. Inr m)\<rparr>"

text \<open>The earlier trainer on the loader of the first example, for two epochs.\<close>

definition example_trainer_v1 :: "(nat, rat) IC50BertTrainer_v1" where
  "example_trainer_v1 =
     \<lparr>v1_model = 0, v1_dataloader = \<lparr>dl_len = 1, dl_batches = (\<lambda>epoch. [of_nat epoch])\<rparr>,
      v1_num_epochs = 2\<rparr>"

text \<open>A table of two rows whose columns are not in the order of the record's fields.\<close>

definition example_df :: "string DataFrame" where
  "example_df =
     \<lparr>df_columns = [''IC50 (nM)'', ''Ligand SMILES'', ''BindingDB Target Chain Sequence''],
      df_rows = [[''10'', ''CCO'', ''MKV''], [''20'', ''CCN'', ''MAL'']]\<rparr>"

text \<open>
  A tokenizer for concrete batches: a pair of texts becomes the character codes of the
  first, a separator 0 and the character codes of the second; every row is padded with
  zeros to the longest row of the batch.
\<close>

definition pad_to :: "nat \<Rightarrow> int list \<Rightarrow> int list" where
  "pad_to n xs = xs @ replicate (n - length xs) 0"

definition example_tokenizer :: "string tokenizer_fn" where
  "example_tokenizer ls ps padding truncation return_tensors =
     (let pairs = zip ls ps;
          n = foldr max (map (\<lambda>(l, p). length l + 1 + length p) pairs) 0
      in Inr [''input_ids'' \<mapsto>
                Tensor2 (map (\<lambda>(l, p). pad_to n (map of_char l @ [0] @ map of_char p)) pairs),
              ''token_type_ids'' \<mapsto>
                Tensor2 (map (\<lambda>(l, p). pad_to n (replicate (length l + 1) 0 @ replicate (length p) 1))
                           pairs),
              ''attention_mask'' \<mapsto>
                Tensor2 (map (\<lambda>(l, p). pad_to n (replicate (length l + 1 + length p) 1)) pairs)])"

definition example_batch :: "(string, pyval) ProteinData list" where
  "example_batch =
     [\<lparr>ligand = ''CCO'', protein = ''MKV'', ic50 = PyInt 10\<rparr>,
      \<lparr>ligand = ''C'', protein = ''MA'', ic50 = PyInt 20\<rparr>]"


text \<open>A loader that knows one tokenizer resource.\<close>

definition example_from_pretrained :: "string \<Rightarrow> error + string tokenizer_fn" where
  "example_from_pretrained path =
     (if path = ''Chem_Tokenizer_3'' then Inr example_tokenizer else Inl OSError)"

section \<open>Facts about float comparison and addition\<close>

lemma flt_less_trans: "flt_less a b \<Longrightarrow> flt_less b c \<Longrightarrow> flt_less a c"
  by (cases a; cases b; cases c) auto

lemma flt_less_NaN_right: "\<not> flt_less a NaN"
  by (cases a) auto

lemma flt_add_PInf_not_less: "\<not> flt_less (flt_add PInf d) v"
  by (cases d; cases v) auto

lemma round_double_4: "round_double 4 = Fin 4"
  by code_simp

section \<open>The early-stop monitor\<close>

lemma early_stop_NaN: "early_stop s NaN = (s, False)"
  by (simp add: early_stop_def flt_greater_def flt_less_NaN_right)

lemma early_stop_best:
  "early_stop s v = (s', b) \<Longrightarrow>
     min_validation_loss s' = min_validation_loss s \<or>
     flt_less (min_validation_loss s') (min_validation_loss s)"
  by (auto simp: early_stop_def Let_def split: if_splits)

lemma early_stop_calls_best:
  "early_stop_calls s vs = (s', bs) \<Longrightarrow>
     min_validation_loss s' = min_validation_loss s \<or>
     flt_less (min_validation_loss s') (min_validation_loss s)"
proof (induction vs arbitrary: s s' bs)
  case Nil
  then show ?case by simp
next
  case (Cons v vs)
  obtain s1 b1 where e1: "early_stop s v = (s1, b1)" by (cases "early_stop s v")
  obtain s2 bs2 where e2: "early_stop_calls s1 vs = (s2, bs2)" by (cases "early_stop_calls s1 vs")
  from Cons.prems e1 e2 have "s' = s2" by simp
  with Cons.IH [OF e2] early_stop_best [OF e1] show ?case
    by (auto dest: flt_less_trans)
qed

lemma early_stop_calls_example_3:
  "early_stop_calls (EarlyStopper_init 2 (Fin 0)) [Fin 5, Fin 4, round_double (203 / 50)] =
     (\<lparr>patience = 2, min_delta = Fin 0, counter = 1, min_validation_loss = Fin 4\<rparr>,
      [False, False, False])"
  by code_simp

lemma early_stop_calls_example_4:
  "early_stop_calls (EarlyStopper_init 2 (Fin 0))
       [Fin 5, Fin 4, round_double (203 / 50), round_double (21 / 5)] =
     (\<lparr>patience = 2, min_delta = Fin 0, counter = 2, min_validation_loss = Fin 4\<rparr>,
      [False, False, False, True])"
  by code_simp

text \<open>
  C1. The transition of \<open>early_stop\<close> on a loss \<open>v\<close>, for every object and every
  configuration: if \<open>v < min_validation_loss\<close> the best loss becomes \<open>v\<close>, the counter
  becomes 0 and False is returned; else if \<open>v > min_validation_loss + min_delta\<close> the
  counter is incremented and True is returned exactly when the incremented counter has
  reached \<open>patience\<close>; otherwise the object is unchanged and False is returned.
  With \<open>min_delta = 0.0\<close> and \<open>patience = 2\<close>, the losses \<open>5.0, 4.0, 4.06, 4.2\<close> (the
  last two being the doubles nearest to these decimals) leave the counter at 1 after
  \<open>4.06\<close> and at 2 after \<open>4.2\<close>, and the fourth call is the first that returns True.
\<close>

theorem C1_early_stop_transition:
  "(flt_less v (min_validation_loss s) \<longrightarrow>
      early_stop s v = (s\<lparr>min_validation_loss := v, counter := 0\<rparr>, False)) \<and>
   (\<not> flt_less v (min_validation_loss s) \<and>
    flt_greater v (flt_add (min_validation_loss s) (min_delta s)) \<longrightarrow>
      early_stop s v = (s\<lparr>counter := counter s + 1\<rparr>, patience s \<le> counter s + 1)) \<and>
   (\<not> flt_less v (min_validation_loss s) \<and>
    \<not> flt_greater v (flt_add (min_validation_loss s) (min_delta s)) \<longrightarrow>
      early_stop s v = (s, False)) \<and>
   early_stop_calls (EarlyStopper_init 2 (Fin 0)) [Fin 5, Fin 4, round_double (203 / 50)] =
     (\<lparr>patience = 2, min_delta = Fin 0, counter = 1, min_validation_loss = Fin 4\<rparr>,
      [False, False, False]) \<and>
   early_stop_calls (EarlyStopper_init 2 (Fin 0))
       [Fin 5, Fin 4, round_double (203 / 50), round_double (21 / 5)] =
     (\<lparr>patience = 2, min_delta = Fin 0, counter = 2, min_validation_loss = Fin 4\<rparr>,
      [False, False, False, True])"
proof -
  have general:
    "(flt_less v (min_validation_loss s) \<longrightarrow>
        early_stop s v = (s\<lparr>min_validation_loss := v, counter := 0\<rparr>, False)) \<and>
     (\<not> flt_less v (min_validation_loss s) \<and>
      flt_greater v (flt_add (min_validation_loss s) (min_delta s)) \<longrightarrow>
        early_stop s v = (s\<lparr>counter := counter s + 1\<rparr>, patience s \<le> counter s + 1)) \<and>
     (\<not> flt_less v (min_validation_loss s) \<and>
      \<not> flt_greater v (flt_add (min_validation_loss s) (min_delta s)) \<longrightarrow>
        early_stop s v = (s, False))"
    by (simp add: early_stop_def Let_def)
  with early_stop_calls_example_3 early_stop_calls_example_4 show ?thesis
    by blast
qed

theorem C1_early_stop_transition_witness:
  "flt_less (Fin 5) (min_validation_loss (EarlyStopper_init 2 (Fin 0))) \<and>
   early_stop (EarlyStopper_init 2 (Fin 0)) (Fin 5) =
     (\<lparr>patience = 2, min_delta = Fin 0, counter = 0, min_validation_loss = Fin 5\<rparr>, False) \<and>
   flt_greater (Fin 6)
     (flt_add (min_validation_loss
        \<lparr>patience = 2, min_delta = Fin 0, counter = 1, min_validation_loss = Fin 4\<rparr>) (Fin 0)) \<and>
   early_stop \<lparr>patience = 2, min_delta = Fin 0, counter = 1, min_validation_loss = Fin 4\<rparr> (Fin 6) =
     (\<lparr>patience = 2, min_delta = Fin 0, counter = 2, min_validation_loss = Fin 4\<rparr>, True) \<and>
   early_stop \<lparr>patience = 2, min_delta = Fin 0, counter = 1, min_validation_loss = Fin 4\<rparr> (Fin 4) =
     (\<lparr>patience = 2, min_delta = Fin 0, counter = 1, min_validation_loss = Fin 4\<rparr>, False)"
  using C1_early_stop_transition [of "Fin 5" "EarlyStopper_init 2 (Fin 0)", THEN conjunct1]
    C1_early_stop_transition [of "Fin 6"
      "\<lparr>patience = 2, min_delta = Fin 0, counter = 1, min_validation_loss = Fin 4\<rparr>",
      THEN conjunct2, THEN conjunct1]
    C1_early_stop_transition [of "Fin 4"
      "\<lparr>patience = 2, min_delta = Fin 0, counter = 1, min_validation_loss = Fin 4\<rparr>",
      THEN conjunct2, THEN conjunct2, THEN conjunct1]
  by (simp add: EarlyStopper_init_def flt_greater_def round_double_4)

text \<open>
  C8, as stated: from the initial object (best loss \<open>+inf\<close>, counter 0) the first call
  returns False, the best loss becomes the observed value and the counter is 0. This
  fails when the first value is NaN: \<open>nan < inf\<close> is false, so the best loss stays
  \<open>+inf\<close>.
\<close>

theorem C8_first_loss_counterexample:
  "\<not> (snd (early_stop (EarlyStopper_init 1 (Fin 0)) NaN) = False \<and>
      min_validation_loss (fst (early_stop (EarlyStopper_init 1 (Fin 0)) NaN)) = NaN \<and>
      counter (fst (early_stop (EarlyStopper_init 1 (Fin 0)) NaN)) = 0)"
  by (simp add: early_stop_NaN EarlyStopper_init_def)

text \<open>
  C8, amended: for every configuration and every first value the first call returns
  False; for every first value other than NaN the best loss becomes that value and the
  counter is 0; for NaN the object stays in its initial state.
\<close>

theorem C8_first_loss:
  "snd (early_stop (EarlyStopper_init p d) v) = False \<and>
   (v \<noteq> NaN \<longrightarrow> fst (early_stop (EarlyStopper_init p d) v) =
      \<lparr>patience = p, min_delta = d, counter = 0, min_validation_loss = v\<rparr>) \<and>
   (v = NaN \<longrightarrow> fst (early_stop (EarlyStopper_init p d) v) = EarlyStopper_init p d)"
  by (cases v) (auto simp: early_stop_def EarlyStopper_init_def flt_greater_def flt_add_PInf_not_less)

theorem C8_first_loss_witness:
  "Fin 5 \<noteq> NaN \<and>
   snd (early_stop (EarlyStopper_init 10 (Fin (1 / 20))) (Fin 5)) = False \<and>
   fst (early_stop (EarlyStopper_init 10 (Fin (1 / 20))) (Fin 5)) =
     \<lparr>patience = 10, min_delta = Fin (1 / 20), counter = 0, min_validation_loss = Fin 5\<rparr> \<and>
   fst (early_stop (EarlyStopper_init 10 (Fin (1 / 20))) NaN) = EarlyStopper_init 10 (Fin (1 / 20))"
  using C8_first_loss [of 10 "Fin (1 / 20)" "Fin 5"] C8_first_loss [of 10 "Fin (1 / 20)" NaN]
  by simp

text \<open>
  C9. Every call keeps these invariants: the best loss never increases (it is unchanged
  or strictly smaller after the call, and so after any sequence of calls); a call whose
  argument is strictly below the best loss leaves the counter at 0; a call that returns
  True leaves the counter at or above \<open>patience\<close>.
\<close>

theorem C9_early_stopper_invariants:
  "(early_stop s v = (s', b) \<longrightarrow>
      (min_validation_loss s' = min_validation_loss s \<or>
       flt_less (min_validation_loss s') (min_validation_loss s)) \<and>
      (flt_less v (min_validation_loss s) \<longrightarrow> counter s' = 0) \<and>
      (b \<longrightarrow> patience s' \<le> counter s')) \<and>
   (early_stop_calls s vs = (s'', bs) \<longrightarrow>
      min_validation_loss s'' = min_validation_loss s \<or>
      flt_less (min_validation_loss s'') (min_validation_loss s))"
proof -
  have "early_stop s v = (s', b) \<Longrightarrow>
      (flt_less v (min_validation_loss s) \<longrightarrow> counter s' = 0) \<and> (b \<longrightarrow> patience s' \<le> counter s')"
    by (auto simp: early_stop_def Let_def split: if_splits)
  then show ?thesis
    using early_stop_best [of s v s' b] early_stop_calls_best [of s vs s'' bs] by blast
qed

theorem C9_early_stopper_invariants_witness:
  "early_stop \<lparr>patience = 2, min_delta = Fin 0, counter = 1, min_validation_loss = Fin 4\<rparr> (Fin 6) =
     (\<lparr>patience = 2, min_delta = Fin 0, counter = 2, min_validation_loss = Fin 4\<rparr>, True) \<and>
   patience \<lparr>patience = 2, min_delta = Fin 0, counter = 2, min_validation_loss = Fin 4\<rparr>
     \<le> counter \<lparr>patience = 2, min_delta = Fin 0, counter = 2, min_validation_loss = Fin 4\<rparr> \<and>
   early_stop (EarlyStopper_init 2 (Fin 0)) (Fin 5) =
     (\<lparr>patience = 2, min_delta = Fin 0, counter = 0, min_validation_loss = Fin 5\<rparr>, False) \<and>
   flt_less (Fin 5) (min_validation_loss (EarlyStopper_init 2 (Fin 0))) \<and>
   early_stop_calls (EarlyStopper_init 2 (Fin 0)) [Fin 5, Fin 4, round_double (203 / 50)] =
     (\<lparr>patience = 2, min_delta = Fin 0, counter = 1, min_validation_loss = Fin 4\<rparr>,
      [False, False, False]) \<and>
   flt_less (Fin 4) (min_validation_loss (EarlyStopper_init 2 (Fin 0)))"
proof -
  have a: "early_stop \<lparr>patience = 2, min_delta = Fin 0, counter = 1, min_validation_loss = Fin 4\<rparr> (Fin 6) =
     (\<lparr>patience = 2, min_delta = Fin 0, counter = 2, min_validation_loss = Fin 4\<rparr>, True)"
    by (simp add: early_stop_def flt_greater_def round_double_4)
  have b: "early_stop (EarlyStopper_init 2 (Fin 0)) (Fin 5) =
     (\<lparr>patience = 2, min_delta = Fin 0, counter = 0, min_validation_loss = Fin 5\<rparr>, False)"
    by (simp add: early_stop_def EarlyStopper_init_def)
  show ?thesis
    using a b early_stop_calls_example_3
      C9_early_stopper_invariants [where
        s = "\<lparr>patience = 2, min_delta = Fin 0, counter = 1, min_validation_loss = Fin 4\<rparr>"
        and v = "Fin 6"
        and s' = "\<lparr>patience = 2, min_delta = Fin 0, counter = 2, min_validation_loss = Fin 4\<rparr>"
        and b = True]
    by (simp add: EarlyStopper_init_def)
qed

section \<open>The training loop\<close>

lemma pass_loop_total:
  "pass_loop step bs m tot = Inr (m', tot') \<Longrightarrow>
     tot' = foldl flt_add tot (batch_losses step m bs) \<and>
     length (batch_losses step m bs) = length bs"
proof (induction bs arbitrary: m tot)
  case Nil
  then show ?case by simp
next
  case (Cons b rest)
  from Cons.prems obtain m1 loss where s: "step m b = Inr (m1, loss)"
    by (auto split: sum.splits)
  with Cons.prems have "pass_loop step rest m1 (flt_add tot loss) = Inr (m', tot')" by simp
  from Cons.IH [OF this] s show ?case by simp
qed

lemma pass_loop_returns:
  "\<forall>m b. \<exists>res. step m b = Inr res \<Longrightarrow> \<exists>res. pass_loop step bs m tot = Inr res"
proof (induction bs arbitrary: m tot)
  case Nil
  then show ?case by simp
next
  case (Cons b rest)
  from Cons.prems obtain m1 loss where s: "step m b = Inr (m1, loss)" by (metis surj_pair)
  from Cons.IH [OF Cons.prems] s show ?case by simp
qed

lemma flt_div_len_Inr: "flt_div_len x n = Inr y \<Longrightarrow> n \<noteq> 0"
  by (auto simp: flt_div_len_def split: if_splits)

lemma flt_div_len_returns: "n \<noteq> 0 \<Longrightarrow> \<exists>y. flt_div_len x n = Inr y"
  by (simp add: flt_div_len_def)

lemma run_epoch_train:
  assumes "run_epoch env t epoch m = Inr (m', tloss, vloss, sloss)"
  shows "\<exists>m1 tot.
     train_pass env (device t) m (dl_batches (dataloader t) epoch) = Inr (m1, tot) \<and>
     flt_div_len tot (dl_len (dataloader t)) = Inr tloss \<and>
     (case val_dataloader t of
        None \<Rightarrow> vloss = None \<and> sloss = tloss
      | Some vdl \<Rightarrow>
          if dl_len vdl \<noteq> 0 then
            (\<exists>m2 vtot. eval_pass env (device t) m1 (dl_batches vdl epoch) = Inr (m2, vtot) \<and>
               flt_div_len vtot (dl_len vdl) = Inr sloss \<and> vloss = Some sloss)
          else vloss = None \<and> sloss = tloss)"
proof -
  from assms obtain m1 tot where
    tp: "train_pass env (device t) m (dl_batches (dataloader t) epoch) = Inr (m1, tot)"
    by (auto simp: run_epoch_def split: sum.splits)
  from assms tp obtain x where x: "flt_div_len tot (dl_len (dataloader t)) = Inr x"
    by (auto simp: run_epoch_def split: sum.splits)
  show ?thesis
  proof (cases "val_dataloader t")
    case None
    with assms tp x show ?thesis by (auto simp: run_epoch_def)
  next
    case (Some vdl)
    show ?thesis
    proof (cases "dl_len vdl = 0")
      case True
      with assms tp x Some show ?thesis by (auto simp: run_epoch_def)
    next
      case False
      from assms tp x Some False obtain m2 vtot where
        ep: "eval_pass env (device t) m1 (dl_batches vdl epoch) = Inr (m2, vtot)"
        by (auto simp: run_epoch_def split: sum.splits)
      from assms tp x Some False ep obtain y where y: "flt_div_len vtot (dl_len vdl) = Inr y"
        by (auto simp: run_epoch_def split: sum.splits)
      from assms tp x Some False ep y show ?thesis by (auto simp: run_epoch_def)
    qed
  qed
qed

lemma run_epoch_Inr:
  assumes "run_epoch env t epoch m = Inr (m', tloss, vloss, sloss)"
  shows "dl_len (dataloader t) \<noteq> 0 \<and>
     (vloss \<noteq> None) = val_configured t \<and>
     sloss = (case vloss of None \<Rightarrow> tloss | Some v \<Rightarrow> v)"
proof -
  from run_epoch_train [OF assms] obtain m1 tot where
    d: "flt_div_len tot (dl_len (dataloader t)) = Inr tloss"
    and v: "(case val_dataloader t of
        None \<Rightarrow> vloss = None \<and> sloss = tloss
      | Some vdl \<Rightarrow>
          if dl_len vdl \<noteq> 0 then
            (\<exists>m2 vtot. eval_pass env (device t) m1 (dl_batches vdl epoch) = Inr (m2, vtot) \<and>
               flt_div_len vtot (dl_len vdl) = Inr sloss \<and> vloss = Some sloss)
          else vloss = None \<and> sloss = tloss)"
    by blast
  from v have "(vloss \<noteq> None) = val_configured t \<and>
     sloss = (case vloss of None \<Rightarrow> tloss | Some v \<Rightarrow> v)"
    by (auto simp: val_configured_def split: option.splits if_splits)
  with flt_div_len_Inr [OF d] show ?thesis by simp
qed

lemma run_epoch_returns:
  assumes "dl_len (dataloader t) \<noteq> 0"
    and "\<forall>m b. \<exists>res. train_batch env (device t) m b = Inr res"
    and "\<forall>m b. \<exists>res. eval_batch env (device t) m b = Inr res"
  shows "\<exists>res. run_epoch env t epoch m = Inr res"
proof -
  from pass_loop_returns [OF assms(2)] obtain m1 tot where
    tp: "train_pass env (device t) m (dl_batches (dataloader t) epoch) = Inr (m1, tot)"
    unfolding train_pass_def by (metis surj_pair)
  from flt_div_len_returns [OF assms(1)] obtain x where
    x: "flt_div_len tot (dl_len (dataloader t)) = Inr x" by blast
  show ?thesis
  proof (cases "val_dataloader t")
    case None
    with tp x show ?thesis by (simp add: run_epoch_def)
  next
    case (Some vdl)
    show ?thesis
    proof (cases "dl_len vdl = 0")
      case True
      with tp x Some show ?thesis by (simp add: run_epoch_def)
    next
      case False
      from pass_loop_returns [OF assms(3)] obtain m2 vtot where
        ep: "eval_pass env (device t) m1 (dl_batches vdl epoch) = Inr (m2, vtot)"
        unfolding eval_pass_def by (metis surj_pair)
      from flt_div_len_returns [OF False] obtain y where
        "flt_div_len vtot (dl_len vdl) = Inr y" by blast
      with tp x Some False ep show ?thesis by (simp add: run_epoch_def)
    qed
  qed
qed

lemma train_loop_trace:
  "train_loop env t es st = Inr r \<Longrightarrow>
   \<exists>new. trace r = trace st @ new \<and> length new \<le> length es \<and>
      (\<forall>e\<in>set (butlast new). \<not> stop_signal e) \<and>
      ((\<forall>e\<in>set new. \<not> stop_signal e) \<longrightarrow> length new = length es) \<and>
      Train r = Train st @ map (\<lambda>e. py_round4 (train_episode_loss e)) new \<and>
      Validation r = Validation st @ map py_round4 (List.map_filter val_episode_loss new) \<and>
      (\<forall>e\<in>set new. (val_episode_loss e \<noteq> None) = val_configured t \<and>
          stop_loss e = (case val_episode_loss e of None \<Rightarrow> train_episode_loss e | Some v \<Rightarrow> v) \<and>
          (stop_loss e = NaN \<longrightarrow> \<not> stop_signal e)) \<and>
      early_stop_calls (ts_stopper st) (map stop_loss new) = (ts_stopper r, map stop_signal new)"
proof (induction es arbitrary: st)
  case Nil
  then show ?case by (auto simp:)
next
  case (Cons epoch rest)
  from Cons.prems obtain m' tloss vloss sloss where ep: "run_epoch env t epoch (ts_model st) = Inr (m', tloss, vloss, sloss)"
    by (auto split: sum.splits)
  obtain es' stop where stp: "early_stop (ts_stopper st) sloss = (es', stop)"
    by (cases "early_stop (ts_stopper st) sloss")
  define entry where "entry = \<lparr>train_episode_loss = tloss, val_episode_loss = vloss,
                                           stop_loss = sloss, stop_signal = stop\<rparr>"
  define st' where "st' = \<lparr>ts_model = m', ts_stopper = es',
                      Train = Train st @ [py_round4 tloss],
                      Validation = (case vloss of None \<Rightarrow> Validation st
                                    | Some v \<Rightarrow> Validation st @ [py_round4 v]),
                      trace = trace st @ [entry]\<rparr>"
  from run_epoch_Inr [OF ep] have vloss: "(vloss \<noteq> None) = val_configured t"
    and sloss: "sloss = (case vloss of None \<Rightarrow> tloss | Some v \<Rightarrow> v)" by auto
  have nan: "sloss = NaN \<longrightarrow> \<not> stop" using stp by (auto simp: early_stop_NaN)
  have res: "(if stop then Inr st' else train_loop env t rest st') = Inr r"
    using Cons.prems unfolding st'_def entry_def by (cases stop) (simp_all add: ep stp Let_def)
  show ?case
  proof (cases stop)
    case True
    with res have r: "r = st'" by simp
    show ?thesis
      apply (rule exI [of _ "[entry]"])
      using vloss sloss nan True stp
      by (auto simp: r st'_def entry_def split: option.splits)
  next
    case False
    with res have "train_loop env t rest st' = Inr r" by simp
    from Cons.IH [OF this] obtain new where new:
      "trace r = trace st' @ new" "length new \<le> length rest"
      "\<forall>e\<in>set (butlast new). \<not> stop_signal e"
      "(\<forall>e\<in>set new. \<not> stop_signal e) \<longrightarrow> length new = length rest"
      "Train r = Train st' @ map (\<lambda>e. py_round4 (train_episode_loss e)) new"
      "Validation r = Validation st' @ map py_round4 (List.map_filter val_episode_loss new)"
      "\<forall>e\<in>set new. (val_episode_loss e \<noteq> None) = val_configured t \<and>
          stop_loss e = (case val_episode_loss e of None \<Rightarrow> train_episode_loss e | Some v \<Rightarrow> v) \<and>
          (stop_loss e = NaN \<longrightarrow> \<not> stop_signal e)"
      "early_stop_calls (ts_stopper st') (map stop_loss new) = (ts_stopper r, map stop_signal new)"
      by blast
    show ?thesis
      apply (rule exI [of _ "entry # new"])
      using new vloss sloss nan False stp
      by (auto simp: st'_def entry_def split: option.splits)
  qed
qed

lemma train_loop_epochs:
  "train_loop env t es st = Inr r \<Longrightarrow>
   \<exists>new. trace r = trace st @ new \<and> length new \<le> length es \<and>
      (\<forall>i<length new. \<exists>m m'.
          run_epoch env t (es ! i) m =
            Inr (m', train_episode_loss (new ! i), val_episode_loss (new ! i), stop_loss (new ! i)))"
proof (induction es arbitrary: st)
  case Nil
  then show ?case by simp
next
  case (Cons epoch rest)
  from Cons.prems obtain m' tloss vloss sloss where ep: "run_epoch env t epoch (ts_model st) = Inr (m', tloss, vloss, sloss)"
    by (auto split: sum.splits)
  obtain es' stop where stp: "early_stop (ts_stopper st) sloss = (es', stop)"
    by (cases "early_stop (ts_stopper st) sloss")
  define entry where "entry = \<lparr>train_episode_loss = tloss, val_episode_loss = vloss,
                                           stop_loss = sloss, stop_signal = stop\<rparr>"
  define st' where "st' = \<lparr>ts_model = m', ts_stopper = es',
                      Train = Train st @ [py_round4 tloss],
                      Validation = (case vloss of None \<Rightarrow> Validation st
                                    | Some v \<Rightarrow> Validation st @ [py_round4 v]),
                      trace = trace st @ [entry]\<rparr>"
  have e0: "\<exists>m m'. run_epoch env t epoch m =
      Inr (m', train_episode_loss entry, val_episode_loss entry, stop_loss entry)"
    using ep by (auto simp: entry_def)
  have res: "(if stop then Inr st' else train_loop env t rest st') = Inr r"
    using Cons.prems unfolding st'_def entry_def by (cases stop) (simp_all add: ep stp Let_def)
  show ?case
  proof (cases stop)
    case True
    with res have r: "r = st'" by simp
    show ?thesis
      apply (rule exI [of _ "[entry]"])
      using e0 by (simp add: r st'_def)
  next
    case False
    with res have "train_loop env t rest st' = Inr r" by simp
    from Cons.IH [OF this] obtain new where new:
      "trace r = trace st' @ new" "length new \<le> length rest"
      "\<forall>i<length new. \<exists>m m'.
          run_epoch env t (rest ! i) m =
            Inr (m', train_episode_loss (new ! i), val_episode_loss (new ! i), stop_loss (new ! i))"
      by blast
    have "\<exists>m m'. run_epoch env t ((epoch # rest) ! i) m =
            Inr (m', train_episode_loss ((entry # new) ! i), val_episode_loss ((entry # new) ! i),
                 stop_loss ((entry # new) ! i))"
      if "i < length (entry # new)" for i
    proof (cases i)
      case 0
      with e0 show ?thesis by simp
    next
      case (Suc j)
      with that have "j < length new" by simp
      with new(3) Suc show ?thesis by simp
    qed
    then show ?thesis
      apply (intro exI [of _ "entry # new"])
      using new(1,2) by (simp add: st'_def)
  qed
qed

lemma train_loop_returns:
  assumes "dl_len (dataloader t) \<noteq> 0"
    and "\<forall>m b. \<exists>res. train_batch env (device t) m b = Inr res"
    and "\<forall>m b. \<exists>res. eval_batch env (device t) m b = Inr res"
  shows "\<exists>r. train_loop env t es st = Inr r"
proof (induction es arbitrary: st)
  case Nil
  then show ?case by simp
next
  case (Cons epoch rest)
  from run_epoch_returns [OF assms] obtain res where
    "run_epoch env t epoch (ts_model st) = Inr res" by blast
  with Cons.IH show ?case
    by (auto simp: Let_def split: prod.splits)
qed

lemma butlast_all_false_last:
  "\<forall>e\<in>set (butlast xs). \<not> P e \<Longrightarrow> k < length xs \<Longrightarrow> P (xs ! k) \<Longrightarrow> length xs = k + 1"
proof (rule ccontr)
  assume a: "\<forall>e\<in>set (butlast xs). \<not> P e" "k < length xs" "P (xs ! k)" "length xs \<noteq> k + 1"
  then have "k < length (butlast xs)" by simp
  then have "butlast xs ! k \<in> set (butlast xs)" by (rule nth_mem)
  moreover have "butlast xs ! k = xs ! k" using \<open>k < length (butlast xs)\<close> by (rule nth_butlast)
  ultimately show False using a by auto
qed

lemma map_filter_all_Some:
  "\<forall>e\<in>set xs. f e \<noteq> None \<Longrightarrow> List.map_filter f xs = map (\<lambda>e. the (f e)) xs"
  by (induction xs) auto

lemma map_filter_all_None:
  "\<forall>e\<in>set xs. f e = None \<Longrightarrow> List.map_filter f xs = []"
  by (induction xs) auto

lemma train_Inr:
  assumes "train env t = Inr r"
  shows "\<exists>m0 m1. model_to env (model t) (device t) = Inr m0 \<and>
           criterion_to env m0 (device t) = Inr m1 \<and>
           train_loop env t [0..<nat (num_epochs t)]
             \<lparr>ts_model = m1, ts_stopper = early_stopper t,
              Train = [], Validation = [], trace = []\<rparr> = Inr r"
  using assms by (auto simp: train_def split: sum.splits)

lemma train_returns:
  assumes "model_to env (model t) (device t) = Inr m0"
    and "criterion_to env m0 (device t) = Inr m1"
    and "dl_len (dataloader t) \<noteq> 0"
    and "\<forall>m b. \<exists>res. train_batch env (device t) m b = Inr res"
    and "\<forall>m b. \<exists>res. eval_batch env (device t) m b = Inr res"
  shows "\<exists>r. train env t = Inr r"
  using train_loop_returns [OF assms(3,4,5)] assms(1,2) by (simp add: train_def)

lemma train_result:
  assumes "train env t = Inr r"
  shows "length (trace r) \<le> nat (num_epochs t) \<and>
     Train r = map (\<lambda>e. py_round4 (train_episode_loss e)) (trace r) \<and>
     Validation r = (if val_configured t
                     then map (\<lambda>e. py_round4 (the (val_episode_loss e))) (trace r) else []) \<and>
     (\<forall>e\<in>set (butlast (trace r)). \<not> stop_signal e) \<and>
     ((\<forall>e\<in>set (trace r). \<not> stop_signal e) \<longrightarrow> length (trace r) = nat (num_epochs t)) \<and>
     (\<forall>e\<in>set (trace r). (val_episode_loss e \<noteq> None) = val_configured t \<and>
          stop_loss e = (case val_episode_loss e of None \<Rightarrow> train_episode_loss e | Some v \<Rightarrow> v) \<and>
          (stop_loss e = NaN \<longrightarrow> \<not> stop_signal e)) \<and>
     early_stop_calls (early_stopper t) (map stop_loss (trace r)) =
       (ts_stopper r, map stop_signal (trace r))"
proof -
  from train_Inr [OF assms] obtain m1 where r0:
    "train_loop env t [0..<nat (num_epochs t)]
       \<lparr>ts_model = m1, ts_stopper = early_stopper t,
        Train = [], Validation = [], trace = []\<rparr> = Inr r"
    by blast
  define st0 where "st0 = \<lparr>ts_model = m1, ts_stopper = early_stopper t,
             Train = [], Validation = [], trace = ([] :: epoch_trace list)\<rparr>"
  from r0 have r: "train_loop env t [0..<nat (num_epochs t)] st0 = Inr r"
    by (simp add: st0_def)
  from train_loop_trace [OF r] obtain new where new:
      "trace r = trace st0 @ new" "length new \<le> length [0..<nat (num_epochs t)]"
      "\<forall>e\<in>set (butlast new). \<not> stop_signal e"
      "(\<forall>e\<in>set new. \<not> stop_signal e) \<longrightarrow> length new = length [0..<nat (num_epochs t)]"
      "Train r = Train st0 @ map (\<lambda>e. py_round4 (train_episode_loss e)) new"
      "Validation r = Validation st0 @ map py_round4 (List.map_filter val_episode_loss new)"
      "\<forall>e\<in>set new. (val_episode_loss e \<noteq> None) = val_configured t \<and>
          stop_loss e = (case val_episode_loss e of None \<Rightarrow> train_episode_loss e | Some v \<Rightarrow> v) \<and>
          (stop_loss e = NaN \<longrightarrow> \<not> stop_signal e)"
      "early_stop_calls (ts_stopper st0) (map stop_loss new) = (ts_stopper r, map stop_signal new)"
    by blast
  have tn: "trace r = new" using new(1) by (simp add: st0_def)
  have val: "Validation r = (if val_configured t
                     then map (\<lambda>e. py_round4 (the (val_episode_loss e))) new else [])"
  proof (cases "val_configured t")
    case True
    with new(7) have "\<forall>e\<in>set new. val_episode_loss e \<noteq> None" by blast
    from map_filter_all_Some [OF this] new(6) True show ?thesis by (simp add: st0_def comp_def)
  next
    case False
    with new(7) have "\<forall>e\<in>set new. val_episode_loss e = None" by blast
    from map_filter_all_None [OF this] new(6) False show ?thesis by (simp add: st0_def)
  qed
  show ?thesis
    using new(2,3,4,5,7,8) val by (simp add: tn st0_def)
qed

lemma train_epochs:
  assumes "train env t = Inr r"
  shows "\<forall>i<length (trace r). \<exists>m m'.
           run_epoch env t i m =
             Inr (m', train_episode_loss (trace r ! i), val_episode_loss (trace r ! i),
                  stop_loss (trace r ! i))"
proof -
  from train_Inr [OF assms] obtain m1 where r0:
    "train_loop env t [0..<nat (num_epochs t)]
       \<lparr>ts_model = m1, ts_stopper = early_stopper t,
        Train = [], Validation = [], trace = []\<rparr> = Inr r"
    by blast
  from train_loop_epochs [OF r0] obtain new where new:
    "trace r = new" "length new \<le> nat (num_epochs t)"
    "\<forall>i<length new. \<exists>m m'.
          run_epoch env t ([0..<nat (num_epochs t)] ! i) m =
            Inr (m', train_episode_loss (new ! i), val_episode_loss (new ! i), stop_loss (new ! i))"
    by auto
  show ?thesis
  proof (intro allI impI)
    fix i assume "i < length (trace r)"
    with new(1,2) have i: "i < length new" "i < nat (num_epochs t)" by simp_all
    from i(2) have "[0..<nat (num_epochs t)] ! i = i" by simp
    with new(3) i(1) show "\<exists>m m'. run_epoch env t i m =
             Inr (m', train_episode_loss (trace r ! i), val_episode_loss (trace r ! i),
                  stop_loss (trace r ! i))"
      unfolding new(1) by metis
  qed
qed

lemma run_epoch_losses:
  assumes "run_epoch env t epoch m = Inr (m', tloss, vloss, sloss)"
  shows "\<exists>m1.
     train_pass env (device t) m (dl_batches (dataloader t) epoch) =
       Inr (m1, foldl flt_add (Fin 0)
                  (batch_losses (train_batch env (device t)) m (dl_batches (dataloader t) epoch))) \<and>
     length (batch_losses (train_batch env (device t)) m (dl_batches (dataloader t) epoch)) =
       length (dl_batches (dataloader t) epoch) \<and>
     flt_div_len
       (foldl flt_add (Fin 0)
          (batch_losses (train_batch env (device t)) m (dl_batches (dataloader t) epoch)))
       (dl_len (dataloader t)) = Inr tloss \<and>
     (\<forall>vdl. val_dataloader t = Some vdl \<and> dl_len vdl \<noteq> 0 \<longrightarrow>
        vloss = Some sloss \<and>
        length (batch_losses (eval_batch env (device t)) m1 (dl_batches vdl epoch)) =
          length (dl_batches vdl epoch) \<and>
        flt_div_len
          (foldl flt_add (Fin 0) (batch_losses (eval_batch env (device t)) m1 (dl_batches vdl epoch)))
          (dl_len vdl) = Inr sloss) \<and>
     (\<forall>vdl. val_dataloader t = Some vdl \<and> dl_len vdl = 0 \<longrightarrow> vloss = None \<and> sloss = tloss) \<and>
     (val_dataloader t = None \<longrightarrow> vloss = None \<and> sloss = tloss)"
proof -
  from run_epoch_train [OF assms] obtain m1 tot where
    tp: "train_pass env (device t) m (dl_batches (dataloader t) epoch) = Inr (m1, tot)"
    and d: "flt_div_len tot (dl_len (dataloader t)) = Inr tloss"
    and v: "(case val_dataloader t of
        None \<Rightarrow> vloss = None \<and> sloss = tloss
      | Some vdl \<Rightarrow>
          if dl_len vdl \<noteq> 0 then
            (\<exists>m2 vtot. eval_pass env (device t) m1 (dl_batches vdl epoch) = Inr (m2, vtot) \<and>
               flt_div_len vtot (dl_len vdl) = Inr sloss \<and> vloss = Some sloss)
          else vloss = None \<and> sloss = tloss)"
    by blast
  from tp have tot: "tot = foldl flt_add (Fin 0)
        (batch_losses (train_batch env (device t)) m (dl_batches (dataloader t) epoch))"
    and len: "length (batch_losses (train_batch env (device t)) m (dl_batches (dataloader t) epoch)) =
       length (dl_batches (dataloader t) epoch)"
    unfolding train_pass_def by (auto dest: pass_loop_total)
  have val: "\<forall>vdl. val_dataloader t = Some vdl \<and> dl_len vdl \<noteq> 0 \<longrightarrow>
        vloss = Some sloss \<and>
        length (batch_losses (eval_batch env (device t)) m1 (dl_batches vdl epoch)) =
          length (dl_batches vdl epoch) \<and>
        flt_div_len
          (foldl flt_add (Fin 0) (batch_losses (eval_batch env (device t)) m1 (dl_batches vdl epoch)))
          (dl_len vdl) = Inr sloss"
  proof (intro allI impI)
    fix vdl assume that: "val_dataloader t = Some vdl \<and> dl_len vdl \<noteq> 0"
    from v that obtain m2 vtot where
      ep: "eval_pass env (device t) m1 (dl_batches vdl epoch) = Inr (m2, vtot)"
      and dv: "flt_div_len vtot (dl_len vdl) = Inr sloss" and vs: "vloss = Some sloss"
      by auto
    from ep have "vtot = foldl flt_add (Fin 0)
        (batch_losses (eval_batch env (device t)) m1 (dl_batches vdl epoch))"
      and "length (batch_losses (eval_batch env (device t)) m1 (dl_batches vdl epoch)) =
          length (dl_batches vdl epoch)"
      unfolding eval_pass_def by (auto dest: pass_loop_total)
    with dv vs show "vloss = Some sloss \<and>
        length (batch_losses (eval_batch env (device t)) m1 (dl_batches vdl epoch)) =
          length (dl_batches vdl epoch) \<and>
        flt_div_len
          (foldl flt_add (Fin 0) (batch_losses (eval_batch env (device t)) m1 (dl_batches vdl epoch)))
          (dl_len vdl) = Inr sloss" by simp
  qed
  have noval: "\<forall>vdl. val_dataloader t = Some vdl \<and> dl_len vdl = 0 \<longrightarrow> vloss = None \<and> sloss = tloss"
    using v by auto
  have none: "val_dataloader t = None \<longrightarrow> vloss = None \<and> sloss = tloss"
    using v by auto
  from tp d have tp': "train_pass env (device t) m (dl_batches (dataloader t) epoch) =
       Inr (m1, foldl flt_add (Fin 0)
                  (batch_losses (train_batch env (device t)) m (dl_batches (dataloader t) epoch)))"
    and d': "flt_div_len
       (foldl flt_add (Fin 0)
          (batch_losses (train_batch env (device t)) m (dl_batches (dataloader t) epoch)))
       (dl_len (dataloader t)) = Inr tloss"
    by (simp_all add: tot)
  show ?thesis
    apply (rule exI [of _ m1])
    apply (intro conjI)
         apply (rule tp')
        apply (rule len)
       apply (rule d')
      apply (rule val)
     apply (rule noval)
    apply (rule none)
    done
qed

lemma run_epoch_empty_loader:
  assumes "dl_len (dataloader t) = 0"
    and "train_pass env (device t) m (dl_batches (dataloader t) epoch) = Inr p"
  shows "run_epoch env t epoch m = Inl ZeroDivisionError"
  using assms by (cases p) (simp add: run_epoch_def flt_div_len_def)

lemma example_run: "train example_env example_trainer = Inr example_result"
  by code_simp

lemma example_val_run: "train example_env example_val_trainer = Inr example_val_result"
  by code_simp

lemma example_empty_val_run:
  "train example_env example_empty_val_trainer = Inr example_empty_val_result"
  by code_simp

lemma example_val_epoch:
  "run_epoch example_env example_val_trainer 0 0 = Inr (2, Fin 2, Some (Fin 4), Fin 4)"
  by code_simp

lemma example_empty_val_epoch:
  "run_epoch example_env example_empty_val_trainer 0 0 = Inr (2, Fin 2, None, Fin 2)"
  by code_simp

lemma example_nan_run: "train example_nan_env example_trainer = Inr example_nan_result"
  by code_simp

lemma example_run_v1: "train_v1 example_env example_trainer_v1 = Inr (2, [Fin 0, Fin 1])"
  by code_simp

lemma example_late_run:
  "train example_late_env (example_trainer\<lparr>device := ''cuda''\<rparr>) = Inl TorchDeviceError"
  by code_simp

text \<open>
  C2, as stated: with no early-stop signal and a validation source supplied, the result
  holds exactly \<open>num_epochs\<close> validation-loss entries. It does not when the supplied
  source has no batch: the trainer below is given a validation loader of length 0, runs
  its three epochs without a stop signal, and returns three training-loss entries and no
  validation-loss entry (the test \<open>if self.val_dataloader\<close> is false for it).
\<close>

theorem C2_train_entries_per_epoch_counterexample:
  "val_dataloader example_empty_val_trainer \<noteq> None \<and>
   num_epochs example_empty_val_trainer = 3 \<and>
   train example_env example_empty_val_trainer = Inr example_empty_val_result \<and>
   map stop_signal (trace example_empty_val_result) = [False, False, False] \<and>
   length (Train example_empty_val_result) = 3 \<and>
   length (Validation example_empty_val_result) = 0"
proof (intro conjI)
  show "val_dataloader example_empty_val_trainer \<noteq> None"
    by (simp add: example_empty_val_trainer_def)
  show "num_epochs example_empty_val_trainer = 3"
    by (simp add: example_empty_val_trainer_def example_val_trainer_def)
  show "train example_env example_empty_val_trainer = Inr example_empty_val_result"
    by (rule example_empty_val_run)
  show "map stop_signal (trace example_empty_val_result) = [False, False, False]"
    by (simp add: example_empty_val_result_def numeral_3_eq_3)
  show "length (Train example_empty_val_result) = 3"
    by (simp add: example_empty_val_result_def)
  show "length (Validation example_empty_val_result) = 0"
    by (simp add: example_empty_val_result_def)
qed

text \<open>
  C2, amended. \<open>train\<close> records one training-loss entry per epoch run. Whenever it
  returns, the \<open>Train\<close> list has one entry per epoch of the trace, at most \<open>num_epochs\<close>
  of them; if the stopper never answered True it has exactly \<open>num_epochs\<close> entries; if
  the stopper answered True at the end of epoch \<open>k + 1\<close> (index \<open>k\<close>), that epoch is the
  last one and the list has exactly \<open>k + 1\<close> entries. When a validation loader is supplied
  and has at least one batch, the \<open>Validation\<close> list has one entry per epoch too, the
  entry with index \<open>i\<close> belonging to the same epoch as \<open>Train[i]\<close>; when none is supplied,
  or the one supplied has no batch, the \<open>Validation\<close> list is empty. The answers of the
  stopper are those of \<open>early_stop\<close> on the successive epoch losses. And \<open>train\<close> does
  return when the moves to the device and the batches on it succeed and the training
  loader has a batch.
\<close>

theorem C2_train_entries_per_epoch:
  "(train env t = Inr r \<longrightarrow>
      length (Train r) = length (trace r) \<and>
      length (trace r) \<le> nat (num_epochs t) \<and>
      ((\<forall>e\<in>set (trace r). \<not> stop_signal e) \<longrightarrow> length (Train r) = nat (num_epochs t)) \<and>
      (\<forall>k<length (trace r). stop_signal (trace r ! k) \<longrightarrow> length (Train r) = k + 1) \<and>
      Train r = map (\<lambda>e. py_round4 (train_episode_loss e)) (trace r) \<and>
      Validation r = (if val_configured t
                      then map (\<lambda>e. py_round4 (the (val_episode_loss e))) (trace r) else []) \<and>
      (\<forall>vdl. val_dataloader t = Some vdl \<and> dl_len vdl \<noteq> 0 \<longrightarrow>
         length (Validation r) = length (Train r)) \<and>
      (\<forall>vdl. val_dataloader t = Some vdl \<and> dl_len vdl = 0 \<longrightarrow> Validation r = []) \<and>
      (val_dataloader t = None \<longrightarrow> Validation r = []) \<and>
      early_stop_calls (early_stopper t) (map stop_loss (trace r)) =
        (ts_stopper r, map stop_signal (trace r))) \<and>
   (model_to env (model t) (device t) = Inr m0 \<and> criterion_to env m0 (device t) = Inr m1 \<and>
    (\<forall>m b. \<exists>res. train_batch env (device t) m b = Inr res) \<and>
    (\<forall>m b. \<exists>res. eval_batch env (device t) m b = Inr res) \<and>
    dl_len (dataloader t) \<noteq> 0 \<longrightarrow>
      (\<exists>r'. train env t = Inr r'))"
proof (intro conjI impI)
  assume tr: "train env t = Inr r"
  note res = train_result [OF tr]
  from res show len: "length (Train r) = length (trace r)" by simp
  from res show "length (trace r) \<le> nat (num_epochs t)" by simp
  from res len show "length (Train r) = nat (num_epochs t)"
    if "\<forall>e\<in>set (trace r). \<not> stop_signal e" using that by simp
  from res have bl: "\<forall>e\<in>set (butlast (trace r)). \<not> stop_signal e" by simp
  show "\<forall>k<length (trace r). stop_signal (trace r ! k) \<longrightarrow> length (Train r) = k + 1"
    using butlast_all_false_last [OF bl] len by simp
  from res show "Train r = map (\<lambda>e. py_round4 (train_episode_loss e)) (trace r)" by simp
  from res show v: "Validation r = (if val_configured t
                      then map (\<lambda>e. py_round4 (the (val_episode_loss e))) (trace r) else [])"
    by simp
  from v len show "\<forall>vdl. val_dataloader t = Some vdl \<and> dl_len vdl \<noteq> 0 \<longrightarrow>
         length (Validation r) = length (Train r)"
    by (simp add: val_configured_def)
  from v show "\<forall>vdl. val_dataloader t = Some vdl \<and> dl_len vdl = 0 \<longrightarrow> Validation r = []"
    by (simp add: val_configured_def)
  from v show "Validation r = []" if "val_dataloader t = None"
    using that by (simp add: val_configured_def)
  from res show "early_stop_calls (early_stopper t) (map stop_loss (trace r)) =
        (ts_stopper r, map stop_signal (trace r))" by simp
next
  assume "model_to env (model t) (device t) = Inr m0 \<and> criterion_to env m0 (device t) = Inr m1 \<and>
    (\<forall>m b. \<exists>res. train_batch env (device t) m b = Inr res) \<and>
    (\<forall>m b. \<exists>res. eval_batch env (device t) m b = Inr res) \<and>
    dl_len (dataloader t) \<noteq> 0"
  then show "\<exists>r'. train env t = Inr r'"
    by (elim conjE) (rule train_returns)
qed

theorem C2_train_entries_per_epoch_witness:
  "train example_env example_trainer = Inr example_result \<and>
   num_epochs example_trainer = 5 \<and>
   stop_signal (trace example_result ! 1) \<and>
   length (Train example_result) = 1 + 1 \<and>
   val_dataloader example_trainer = None \<and>
   Validation example_result = [] \<and>
   train example_env example_val_trainer = Inr example_val_result \<and>
   num_epochs example_val_trainer = 3 \<and>
   map stop_signal (trace example_val_result) = [False, False, False] \<and>
   length (Train example_val_result) = 3 \<and>
   length (Validation example_val_result) = 3 \<and>
   model_to example_env (model example_val_trainer) (device example_val_trainer) = Inr 0 \<and>
   criterion_to example_env 0 (device example_val_trainer) = Inr 0 \<and>
   dl_len (dataloader example_val_trainer) \<noteq> 0 \<and>
   (\<exists>r'. train example_env example_val_trainer = Inr r')"
proof -
  note inst = C2_train_entries_per_epoch
    [of example_env example_trainer example_result 0 0]
  note vinst = C2_train_entries_per_epoch
    [of example_env example_val_trainer example_val_result 0 0]
  have s: "1 < length (trace example_result) \<and> stop_signal (trace example_result ! 1)"
    by (simp add: example_result_def)
  have n: "num_epochs example_trainer = 5" by (simp add: example_trainer_def)
  have c: "val_dataloader example_trainer = None" by (simp add: example_trainer_def)
  from inst example_run
  have a: "\<forall>k<length (trace example_result).
             stop_signal (trace example_result ! k) \<longrightarrow> length (Train example_result) = k + 1"
    by blast
  from a s have l: "length (Train example_result) = 1 + 1" by blast
  from inst example_run c have v: "Validation example_result = []" by blast
  have vn: "num_epochs example_val_trainer = 3" by (simp add: example_val_trainer_def)
  have vs: "map stop_signal (trace example_val_result) = [False, False, False]"
    by (simp add: example_val_result_def numeral_3_eq_3)
  then have ns: "\<forall>e\<in>set (trace example_val_result). \<not> stop_signal e"
    by (simp add: example_val_result_def)
  from vinst example_val_run ns
  have "length (Train example_val_result) = nat (num_epochs example_val_trainer)" by blast
  with vn have vl: "length (Train example_val_result) = 3" by simp
  have vc: "val_dataloader example_val_trainer = Some \<lparr>dl_len = 2, dl_batches = (\<lambda>epoch. [2, 6])\<rparr> \<and>
            dl_len \<lparr>dl_len = 2, dl_batches = (\<lambda>epoch. [2, 6 :: rat])\<rparr> \<noteq> 0"
    by (simp add: example_val_trainer_def)
  from vinst example_val_run
  have "\<forall>vdl. val_dataloader example_val_trainer = Some vdl \<and> dl_len vdl \<noteq> 0 \<longrightarrow>
         length (Validation example_val_result) = length (Train example_val_result)"
    by blast
  with vc vl have vv: "length (Validation example_val_result) = 3" by metis
  have h: "model_to example_env (model example_val_trainer) (device example_val_trainer) = Inr 0 \<and>
           criterion_to example_env 0 (device example_val_trainer) = Inr 0 \<and>
           (\<forall>m b. \<exists>res. train_batch example_env (device example_val_trainer) m b = Inr res) \<and>
           (\<forall>m b. \<exists>res. eval_batch example_env (device example_val_trainer) m b = Inr res) \<and>
           dl_len (dataloader example_val_trainer) \<noteq> 0"
    by (simp add: example_env_def example_val_trainer_def)
  with vinst have e: "\<exists>r'. train example_env example_val_trainer = Inr r'" by blast
  from example_run n s l c v example_val_run vn vs vl vv h e show ?thesis by blast
qed

text \<open>
  C3, as stated: the value passed to the stopper is the mean validation loss when a
  validation source is configured. It is not when the configured source has no batch:
  for the trainer with a validation loader of length 0, the epoch computes no validation
  loss and passes the mean training loss (1 + 3) / 2 = 2 to the stopper.
\<close>

theorem C3_stop_loss_selection_counterexample:
  "val_dataloader example_empty_val_trainer \<noteq> None \<and>
   run_epoch example_env example_empty_val_trainer 0 0 = Inr (2, Fin 2, None, Fin 2) \<and>
   train example_env example_empty_val_trainer = Inr example_empty_val_result \<and>
   map val_episode_loss (trace example_empty_val_result) = [None, None, None] \<and>
   map stop_loss (trace example_empty_val_result) = [Fin 2, Fin 2, Fin 2]"
proof (intro conjI)
  show "val_dataloader example_empty_val_trainer \<noteq> None"
    by (simp add: example_empty_val_trainer_def)
  show "run_epoch example_env example_empty_val_trainer 0 0 = Inr (2, Fin 2, None, Fin 2)"
    by (rule example_empty_val_epoch)
  show "train example_env example_empty_val_trainer = Inr example_empty_val_result"
    by (rule example_empty_val_run)
  show "map val_episode_loss (trace example_empty_val_result) = [None, None, None]"
    by (simp add: example_empty_val_result_def numeral_3_eq_3)
  show "map stop_loss (trace example_empty_val_result) = [Fin 2, Fin 2, Fin 2]"
    by (simp add: example_empty_val_result_def numeral_3_eq_3)
qed

text \<open>
  C3, amended. In every epoch the training pass accumulates the losses of its batches,
  \<open>total_loss = 0 + loss_1 + ... + loss_n\<close>, one loss per batch, and the mean training
  loss is that sum divided by \<open>len(self.dataloader)\<close>. When a validation loader is
  supplied and has at least one batch, the validation pass accumulates its losses in the
  same way from the state the training pass left, the mean validation loss is the sum
  divided by \<open>len(self.val_dataloader)\<close>, and this is the value passed to the stopper.
  When no validation loader is supplied, or the one supplied has no batch, the value
  passed to the stopper is the mean training loss. In a run of \<open>train\<close> the entry of
  every epoch holds the values computed in this way for that epoch, the returned
  \<open>Train\<close> list holds these mean training losses rounded to four decimals, and the
  stopper is called on exactly these values, in order. With \<open>len(self.dataloader) = 0\<close> and no batch
  raising, the division raises ZeroDivisionError.
\<close>

theorem C3_stop_loss_selection:
  "(run_epoch env t epoch m = Inr (m', tloss, vloss, sloss) \<longrightarrow>
      (\<exists>m1.
         train_pass env (device t) m (dl_batches (dataloader t) epoch) =
           Inr (m1, foldl flt_add (Fin 0)
                      (batch_losses (train_batch env (device t)) m
                         (dl_batches (dataloader t) epoch))) \<and>
         length (batch_losses (train_batch env (device t)) m (dl_batches (dataloader t) epoch)) =
           length (dl_batches (dataloader t) epoch) \<and>
         flt_div_len
           (foldl flt_add (Fin 0)
              (batch_losses (train_batch env (device t)) m (dl_batches (dataloader t) epoch)))
           (dl_len (dataloader t)) = Inr tloss \<and>
         (\<forall>vdl. val_dataloader t = Some vdl \<and> dl_len vdl \<noteq> 0 \<longrightarrow>
            vloss = Some sloss \<and>
            length (batch_losses (eval_batch env (device t)) m1 (dl_batches vdl epoch)) =
              length (dl_batches vdl epoch) \<and>
            flt_div_len
              (foldl flt_add (Fin 0)
                 (batch_losses (eval_batch env (device t)) m1 (dl_batches vdl epoch)))
              (dl_len vdl) = Inr sloss) \<and>
         (\<forall>vdl. val_dataloader t = Some vdl \<and> dl_len vdl = 0 \<longrightarrow> vloss = None \<and> sloss = tloss) \<and>
         (val_dataloader t = None \<longrightarrow> vloss = None \<and> sloss = tloss))) \<and>
   (train env t = Inr r \<longrightarrow>
      (\<forall>i<length (trace r). \<exists>m2 m3.
          run_epoch env t i m2 =
            Inr (m3, train_episode_loss (trace r ! i), val_episode_loss (trace r ! i),
                 stop_loss (trace r ! i))) \<and>
      Train r = map (\<lambda>e. py_round4 (train_episode_loss e)) (trace r) \<and>
      early_stop_calls (early_stopper t) (map stop_loss (trace r)) =
        (ts_stopper r, map stop_signal (trace r))) \<and>
   (dl_len (dataloader t) = 0 \<and>
    train_pass env (device t) m (dl_batches (dataloader t) epoch) = Inr p \<longrightarrow>
      run_epoch env t epoch m = Inl ZeroDivisionError)"
proof (intro conjI impI)
  assume ep: "run_epoch env t epoch m = Inr (m', tloss, vloss, sloss)"
  show "\<exists>m1.
         train_pass env (device t) m (dl_batches (dataloader t) epoch) =
           Inr (m1, foldl flt_add (Fin 0)
                      (batch_losses (train_batch env (device t)) m
                         (dl_batches (dataloader t) epoch))) \<and>
         length (batch_losses (train_batch env (device t)) m (dl_batches (dataloader t) epoch)) =
           length (dl_batches (dataloader t) epoch) \<and>
         flt_div_len
           (foldl flt_add (Fin 0)
              (batch_losses (train_batch env (device t)) m (dl_batches (dataloader t) epoch)))
           (dl_len (dataloader t)) = Inr tloss \<and>
         (\<forall>vdl. val_dataloader t = Some vdl \<and> dl_len vdl \<noteq> 0 \<longrightarrow>
            vloss = Some sloss \<and>
            length (batch_losses (eval_batch env (device t)) m1 (dl_batches vdl epoch)) =
              length (dl_batches vdl epoch) \<and>
            flt_div_len
              (foldl flt_add (Fin 0)
                 (batch_losses (eval_batch env (device t)) m1 (dl_batches vdl epoch)))
              (dl_len vdl) = Inr sloss) \<and>
         (\<forall>vdl. val_dataloader t = Some vdl \<and> dl_len vdl = 0 \<longrightarrow> vloss = None \<and> sloss = tloss) \<and>
         (val_dataloader t = None \<longrightarrow> vloss = None \<and> sloss = tloss)"
    by (rule run_epoch_losses [OF ep])
next
  assume tr: "train env t = Inr r"
  from train_epochs [OF tr] show "\<forall>i<length (trace r). \<exists>m2 m3.
          run_epoch env t i m2 =
            Inr (m3, train_episode_loss (trace r ! i), val_episode_loss (trace r ! i),
                 stop_loss (trace r ! i))" .
  from train_result [OF tr]
  show "Train r = map (\<lambda>e. py_round4 (train_episode_loss e)) (trace r)" by simp
  from train_result [OF tr] show "early_stop_calls (early_stopper t) (map stop_loss (trace r)) =
        (ts_stopper r, map stop_signal (trace r))" by simp
next
  assume "dl_len (dataloader t) = 0 \<and>
    train_pass env (device t) m (dl_batches (dataloader t) epoch) = Inr p"
  then show "run_epoch env t epoch m = Inl ZeroDivisionError"
    by (elim conjE) (rule run_epoch_empty_loader)
qed

theorem C3_stop_loss_selection_witness:
  "run_epoch example_env example_val_trainer 0 0 = Inr (2, Fin 2, Some (Fin 4), Fin 4) \<and>
   batch_losses (train_batch example_env ''cpu'') 0 [1, 3] = [Fin 1, Fin 3] \<and>
   flt_div_len (foldl flt_add (Fin 0) [Fin 1, Fin 3]) 2 = Inr (Fin 2) \<and>
   batch_losses (eval_batch example_env ''cpu'') 2 [2, 6] = [Fin 2, Fin 6] \<and>
   flt_div_len (foldl flt_add (Fin 0) [Fin 2, Fin 6]) 2 = Inr (Fin 4) \<and>
   run_epoch example_env example_empty_val_trainer 0 0 = Inr (2, Fin 2, None, Fin 2) \<and>
   train example_env example_val_trainer = Inr example_val_result \<and>
   (\<exists>m2 m3. run_epoch example_env example_val_trainer 2 m2 = Inr (m3, Fin 2, Some (Fin 4), Fin 4)) \<and>
   dl_len (dataloader (example_trainer\<lparr>dataloader := \<lparr>dl_len = 0, dl_batches = (\<lambda>epoch. [])\<rparr>\<rparr>)) = 0 \<and>
   run_epoch example_env (example_trainer\<lparr>dataloader := \<lparr>dl_len = 0, dl_batches = (\<lambda>epoch. [])\<rparr>\<rparr>)
       0 0 = Inl ZeroDivisionError"
proof -
  have tb: "dl_batches (dataloader example_val_trainer) 0 = [1, 3] \<and>
            dl_len (dataloader example_val_trainer) = 2 \<and> device example_val_trainer = ''cpu'' \<and>
            val_dataloader example_val_trainer = Some \<lparr>dl_len = 2, dl_batches = (\<lambda>epoch. [2, 6])\<rparr>"
    by (simp add: example_val_trainer_def)
  have bl: "batch_losses (train_batch example_env ''cpu'') 0 [1, 3] = [Fin 1, Fin 3]"
    by (simp add: example_env_def)
  from C3_stop_loss_selection
      [of example_env example_val_trainer 0 0 2 "Fin 2" "Some (Fin 4)" "Fin 4", THEN conjunct1]
    example_val_epoch
  obtain m1 where m1:
    "train_pass example_env (device example_val_trainer) 0
         (dl_batches (dataloader example_val_trainer) 0) =
       Inr (m1, foldl flt_add (Fin 0)
                  (batch_losses (train_batch example_env (device example_val_trainer)) 0
                     (dl_batches (dataloader example_val_trainer) 0)))"
    "flt_div_len
       (foldl flt_add (Fin 0)
          (batch_losses (train_batch example_env (device example_val_trainer)) 0
             (dl_batches (dataloader example_val_trainer) 0)))
       (dl_len (dataloader example_val_trainer)) = Inr (Fin 2)"
    "\<forall>vdl. val_dataloader example_val_trainer = Some vdl \<and> dl_len vdl \<noteq> 0 \<longrightarrow>
        flt_div_len
          (foldl flt_add (Fin 0)
             (batch_losses (eval_batch example_env (device example_val_trainer)) m1
                (dl_batches vdl 0)))
          (dl_len vdl) = Inr (Fin 4)"
    by blast
  have tp: "train_pass example_env ''cpu'' 0 [1, 3] = Inr (2, flt_add (flt_add (Fin 0) (Fin 1)) (Fin 3))"
    by (simp add: train_pass_def example_env_def)
  from m1(1) tp tb have m1_2: "m1 = 2" by simp
  from m1(2) tb bl have d1: "flt_div_len (foldl flt_add (Fin 0) [Fin 1, Fin 3]) 2 = Inr (Fin 2)"
    by simp
  have el: "batch_losses (eval_batch example_env ''cpu'') 2 [2, 6] = [Fin 2, Fin 6]"
    by (simp add: example_env_def)
  from m1(3) tb have "flt_div_len
          (foldl flt_add (Fin 0)
             (batch_losses (eval_batch example_env (device example_val_trainer)) m1
                (dl_batches \<lparr>dl_len = 2, dl_batches = (\<lambda>epoch. [2, 6])\<rparr> 0)))
          (dl_len \<lparr>dl_len = 2, dl_batches = (\<lambda>epoch. [2, 6 :: rat])\<rparr>) = Inr (Fin 4)"
    by simp
  with m1_2 tb el have d2: "flt_div_len (foldl flt_add (Fin 0) [Fin 2, Fin 6]) 2 = Inr (Fin 4)"
    by simp
  have i2: "2 < length (trace example_val_result) \<and>
            trace example_val_result ! 2 =
              \<lparr>train_episode_loss = Fin 2, val_episode_loss = Some (Fin 4),
               stop_loss = Fin 4, stop_signal = False\<rparr>"
    by (simp add: example_val_result_def numeral_3_eq_3)
  from C3_stop_loss_selection
      [of example_env example_val_trainer _ _ _ _ _ _ example_val_result,
       THEN conjunct2, THEN conjunct1]
    example_val_run
  have "\<forall>i<length (trace example_val_result). \<exists>m2 m3.
          run_epoch example_env example_val_trainer i m2 =
            Inr (m3, train_episode_loss (trace example_val_result ! i),
                 val_episode_loss (trace example_val_result ! i),
                 stop_loss (trace example_val_result ! i))"
    by blast
  with i2 have e2: "\<exists>m2 m3. run_epoch example_env example_val_trainer 2 m2 =
      Inr (m3, Fin 2, Some (Fin 4), Fin 4)"
    by (metis epoch_trace.select_convs(1,2,3))
  have z: "dl_len (dataloader (example_trainer\<lparr>dataloader := \<lparr>dl_len = 0, dl_batches = (\<lambda>epoch. [])\<rparr>\<rparr>)) = 0 \<and>
      train_pass example_env (device (example_trainer\<lparr>dataloader := \<lparr>dl_len = 0, dl_batches = (\<lambda>epoch. [])\<rparr>\<rparr>)) 0
        (dl_batches (dataloader (example_trainer\<lparr>dataloader := \<lparr>dl_len = 0, dl_batches = (\<lambda>epoch. [])\<rparr>\<rparr>)) 0) =
      Inr (0, Fin 0)"
    by (simp add: train_pass_def)
  from C3_stop_loss_selection
      [of example_env "example_trainer\<lparr>dataloader := \<lparr>dl_len = 0, dl_batches = (\<lambda>epoch. [])\<rparr>\<rparr>"
          0 0 _ _ _ _ _ "(0, Fin 0)",
       THEN conjunct2, THEN conjunct2] z
  have zd: "run_epoch example_env
       (example_trainer\<lparr>dataloader := \<lparr>dl_len = 0, dl_batches = (\<lambda>epoch. [])\<rparr>\<rparr>) 0 0 =
      Inl ZeroDivisionError"
    by blast
  from example_val_epoch bl d1 el d2 example_empty_val_epoch example_val_run e2 z zd
  show ?thesis by blast
qed

text \<open>
  C10. For every object and configuration, a call of \<open>early_stop\<close> with NaN returns False
  and changes nothing, since both comparisons with NaN are false; so any number of
  consecutive NaN losses produces no stop signal and leaves the object as it was. In a
  run of \<open>train\<close>, no epoch whose monitored loss is NaN ends with a stop signal, and a
  run whose last monitored loss is NaN has gone through all \<open>num_epochs\<close> epochs.
\<close>

theorem C10_early_stop_nan:
  "early_stop s NaN = (s, False) \<and>
   early_stop_calls s (replicate n NaN) = (s, replicate n False) \<and>
   (train env t = Inr r \<longrightarrow>
      (\<forall>e\<in>set (trace r). stop_loss e = NaN \<longrightarrow> \<not> stop_signal e) \<and>
      (trace r \<noteq> [] \<and> stop_loss (last (trace r)) = NaN \<longrightarrow>
         length (trace r) = nat (num_epochs t)))"
proof (intro conjI impI)
  show "early_stop s NaN = (s, False)" by (rule early_stop_NaN)
  show "early_stop_calls s (replicate n NaN) = (s, replicate n False)"
    by (induction n) (simp_all add: early_stop_NaN)
next
  assume tr: "train env t = Inr r"
  from train_result [OF tr]
  show nan: "\<forall>e\<in>set (trace r). stop_loss e = NaN \<longrightarrow> \<not> stop_signal e" by simp
  assume l: "trace r \<noteq> [] \<and> stop_loss (last (trace r)) = NaN"
  then have "\<not> stop_signal (last (trace r))" using nan by simp
  moreover from train_result [OF tr] have "\<forall>e\<in>set (butlast (trace r)). \<not> stop_signal e" by simp
  moreover from l have "set (trace r) = set (butlast (trace r)) \<union> {last (trace r)}"
    by (metis append_butlast_last_id set_append list.simps(15) empty_set)
  ultimately have "\<forall>e\<in>set (trace r). \<not> stop_signal e" by auto
  with train_result [OF tr] show "length (trace r) = nat (num_epochs t)" by simp
qed

theorem C10_early_stop_nan_witness:
  "train example_nan_env example_trainer = Inr example_nan_result \<and>
   trace example_nan_result \<noteq> [] \<and>
   stop_loss (last (trace example_nan_result)) = NaN \<and>
   length (trace example_nan_result) = nat (num_epochs example_trainer)"
  using C10_early_stop_nan [of _ _ example_nan_env example_trainer example_nan_result]
    example_nan_run
  by (simp add: example_nan_result_def)

text \<open>
  C7, as stated: with the accelerator unavailable, constructing the trainer fails, and
  unavailability is never handled by falling back silently. Neither holds: on a machine
  where \<open>torch.cuda.is_available()\<close> is false and moving a model to \<open>cuda\<close> raises,
  \<open>IC50BertTrainer.__init__\<close> of src/src/train.py returns a trainer for the device
  \<open>cuda\<close>, and \<open>train\<close> of src/train.py runs its epochs on the CPU and returns its losses.
\<close>

theorem C7_device_error_counterexample:
  "\<not> cuda_is_available example_env \<and>
   model_to example_env 0 ''cuda'' = Inl TorchDeviceError \<and>
   \<not> isl (IC50BertTrainer_init (0::nat) (dataloader example_trainer) None 5 ''cuda'') \<and>
   train_v1 example_env example_trainer_v1 = Inr (2, [Fin 0, Fin 1])"
proof (intro conjI)
  show "\<not> cuda_is_available example_env" by (simp add: example_env_def)
  show "model_to example_env 0 ''cuda'' = Inl TorchDeviceError" by (simp add: example_env_def)
  show "\<not> isl (IC50BertTrainer_init (0::nat) (dataloader example_trainer) None 5 ''cuda'')"
    by (simp add: IC50BertTrainer_init_def)
  show "train_v1 example_env example_trainer_v1 = Inr (2, [Fin 0, Fin 1])"
    by (rule example_run_v1)
qed

text \<open>
  C7, amended. The trainer of src/src/train.py checks nothing at construction:
  \<open>__init__\<close> always succeeds and stores the device it is given. An error of a move to
  the device surfaces in \<open>train\<close>: when \<open>self.model.to(self.device)\<close> or
  \<open>self.criterion.to(self.device)\<close> raises, \<open>train\<close> raises that error before the epoch
  loop; when both succeed and the first epoch raises (its batches are moved to the
  device one by one), \<open>train\<close> raises that error from inside the loop. The trainer of
  src/train.py chooses the CPU when \<open>torch.cuda.is_available()\<close> is false and runs its
  epochs there.
\<close>

theorem C7_device_error:
  "IC50BertTrainer_init m dl vdl n dev =
     Inr \<lparr>model = m, dataloader = dl, val_dataloader = vdl, num_epochs = n, device = dev,
          early_stopper = EarlyStopper_init 10 (round_double (1 / 20))\<rparr> \<and>
   (model_to env (model t) (device t) = Inl e \<or>
    (\<exists>m0. model_to env (model t) (device t) = Inr m0 \<and> criterion_to env m0 (device t) = Inl e)
      \<longrightarrow> train env t = Inl e) \<and>
   (model_to env (model t) (device t) = Inr m0 \<and> criterion_to env m0 (device t) = Inr m1 \<and>
    0 < num_epochs t \<and> run_epoch env t 0 m1 = Inl e \<longrightarrow> train env t = Inl e) \<and>
   (\<not> cuda_is_available env \<longrightarrow> select_device env = ''cpu'') \<and>
   (\<not> cuda_is_available env \<and> model_to env (v1_model t1) ''cpu'' = Inr m0' \<and>
    criterion_to env m0' ''cpu'' = Inr m1' \<longrightarrow>
      train_v1 env t1 = train_loop_v1 env t1 ''cpu'' [0..<nat (v1_num_epochs t1)] m1' [])"
proof (intro conjI impI)
  show "IC50BertTrainer_init m dl vdl n dev =
     Inr \<lparr>model = m, dataloader = dl, val_dataloader = vdl, num_epochs = n, device = dev,
          early_stopper = EarlyStopper_init 10 (round_double (1 / 20))\<rparr>"
    by (simp add: IC50BertTrainer_init_def)
  show "train env t = Inl e"
    if "model_to env (model t) (device t) = Inl e \<or>
        (\<exists>m0. model_to env (model t) (device t) = Inr m0 \<and> criterion_to env m0 (device t) = Inl e)"
    using that by (auto simp: train_def)
  show "train env t = Inl e"
    if h: "model_to env (model t) (device t) = Inr m0 \<and> criterion_to env m0 (device t) = Inr m1 \<and>
        0 < num_epochs t \<and> run_epoch env t 0 m1 = Inl e"
  proof -
    from h have "[0..<nat (num_epochs t)] = 0 # [1..<nat (num_epochs t)]"
      by (simp add: upt_conv_Cons)
    with h show ?thesis by (simp add: train_def)
  qed
  show "select_device env = ''cpu''" if "\<not> cuda_is_available env"
    using that by (simp add: select_device_def)
  show "train_v1 env t1 = train_loop_v1 env t1 ''cpu'' [0..<nat (v1_num_epochs t1)] m1' []"
    if "\<not> cuda_is_available env \<and> model_to env (v1_model t1) ''cpu'' = Inr m0' \<and>
        criterion_to env m0' ''cpu'' = Inr m1'"
    using that by (simp add: train_v1_def select_device_def)
qed

theorem C7_device_error_witness:
  "model_to example_env (model (example_trainer\<lparr>device := ''cuda''\<rparr>))
       (device (example_trainer\<lparr>device := ''cuda''\<rparr>)) = Inl TorchDeviceError \<and>
   train example_env (example_trainer\<lparr>device := ''cuda''\<rparr>) = Inl TorchDeviceError \<and>
   model_to example_late_env (model (example_trainer\<lparr>device := ''cuda''\<rparr>))
       (device (example_trainer\<lparr>device := ''cuda''\<rparr>)) = Inr 0 \<and>
   criterion_to example_late_env 0 (device (example_trainer\<lparr>device := ''cuda''\<rparr>)) = Inr 0 \<and>
   0 < num_epochs (example_trainer\<lparr>device := ''cuda''\<rparr>) \<and>
   run_epoch example_late_env (example_trainer\<lparr>device := ''cuda''\<rparr>) 0 0 = Inl TorchDeviceError \<and>
   train example_late_env (example_trainer\<lparr>device := ''cuda''\<rparr>) = Inl TorchDeviceError \<and>
   \<not> cuda_is_available example_env \<and>
   select_device example_env = ''cpu'' \<and>
   train_v1 example_env example_trainer_v1 =
     train_loop_v1 example_env example_trainer_v1 ''cpu''
       [0..<nat (v1_num_epochs example_trainer_v1)] 0 []"
proof -
  have a: "model_to example_env (model (example_trainer\<lparr>device := ''cuda''\<rparr>))
       (device (example_trainer\<lparr>device := ''cuda''\<rparr>)) = Inl TorchDeviceError"
    by (simp add: example_env_def)
  from C7_device_error [of "0::nat" "dataloader example_trainer" None 5 "''cuda''"
      example_env "example_trainer\<lparr>device := ''cuda''\<rparr>" TorchDeviceError,
      THEN conjunct2, THEN conjunct1] a
  have b: "train example_env (example_trainer\<lparr>device := ''cuda''\<rparr>) = Inl TorchDeviceError"
    by blast
  have c: "model_to example_late_env (model (example_trainer\<lparr>device := ''cuda''\<rparr>))
       (device (example_trainer\<lparr>device := ''cuda''\<rparr>)) = Inr 0 \<and>
     criterion_to example_late_env 0 (device (example_trainer\<lparr>device := ''cuda''\<rparr>)) = Inr 0 \<and>
     0 < num_epochs (example_trainer\<lparr>device := ''cuda''\<rparr>) \<and>
     run_epoch example_late_env (example_trainer\<lparr>device := ''cuda''\<rparr>) 0 0 = Inl TorchDeviceError"
    by (simp add: example_late_env_def example_env_def example_trainer_def run_epoch_def
        train_pass_def)
  from C7_device_error [of "0::nat" "dataloader example_trainer" None 5 "''cuda''"
      example_late_env "example_trainer\<lparr>device := ''cuda''\<rparr>" TorchDeviceError 0 0,
      THEN conjunct2, THEN conjunct2, THEN conjunct1] c
  have d: "train example_late_env (example_trainer\<lparr>device := ''cuda''\<rparr>) = Inl TorchDeviceError"
    by blast
  have h: "\<not> cuda_is_available example_env \<and>
           model_to example_env (v1_model example_trainer_v1) ''cpu'' = Inr 0 \<and>
           criterion_to example_env 0 ''cpu'' = Inr 0"
    by (simp add: example_env_def example_trainer_v1_def)
  from C7_device_error [of "0::nat" "dataloader example_trainer" None 5 "''cuda''"
      example_env _ _ _ _ example_trainer_v1 0 0,
      THEN conjunct2, THEN conjunct2, THEN conjunct2] h
  have e: "select_device example_env = ''cpu'' \<and>
     train_v1 example_env example_trainer_v1 =
       train_loop_v1 example_env example_trainer_v1 ''cpu''
         [0..<nat (v1_num_epochs example_trainer_v1)] 0 []"
    by blast
  from a b c d h e show ?thesis by blast
qed

section \<open>Record projection\<close>

lemma row_get_error: "row_get row label = Inl e \<Longrightarrow> e = KeyError"
  by (auto simp: row_get_def split: option.splits)

lemma row_get_missing: "label \<notin> set cols \<Longrightarrow> row_get (zip cols r) label = Inl KeyError"
proof -
  assume "label \<notin> set cols"
  then have "label \<notin> fst ` set (zip cols r)" by (auto dest: set_zip_leftD)
  then have "map_of (zip cols r) label = None" by (simp add: map_of_eq_None_iff)
  then show ?thesis by (simp add: row_get_def)
qed

lemma row_get_nth:
  "distinct cols \<Longrightarrow> length r = length cols \<Longrightarrow> j < length cols \<Longrightarrow>
     row_get (zip cols r) (cols ! j) = Inr (r ! j)"
  by (simp add: row_get_def map_of_zip_nth)

lemma iloc_out_of_range:
  "int (length (df_rows df)) \<le> idx \<or> idx < - int (length (df_rows df)) \<Longrightarrow>
     iloc df idx = Inl IndexError"
  by (simp add: iloc_def Let_def)

lemma iloc_in_range:
  "- int (length (df_rows df)) \<le> idx \<Longrightarrow> idx < int (length (df_rows df)) \<Longrightarrow>
     iloc df idx = Inr (zip (df_columns df)
        (df_rows df ! nat (if idx < 0 then int (length (df_rows df)) + idx else idx)))"
  by (simp add: iloc_def Let_def)

lemma getitem_missing_column:
  assumes "- int (length (df_rows df)) \<le> idx" and "idx < int (length (df_rows df))"
    and "''Ligand SMILES'' \<notin> set (df_columns df) \<or>
         ''BindingDB Target Chain Sequence'' \<notin> set (df_columns df) \<or>
         ''IC50 (nM)'' \<notin> set (df_columns df)"
  shows "ProteinSMILESDataset_getitem df idx = Inl KeyError"
  using assms(3) iloc_in_range [OF assms(1,2)]
  by (auto simp: ProteinSMILESDataset_getitem_def row_get_missing
      split: sum.splits dest: row_get_error)

lemma getitem_in_range:
  assumes "well_formed df"
    and "- int (length (df_rows df)) \<le> idx" and "idx < int (length (df_rows df))"
    and "j1 < length (df_columns df)" and "df_columns df ! j1 = ''Ligand SMILES''"
    and "j2 < length (df_columns df)" and "df_columns df ! j2 = ''BindingDB Target Chain Sequence''"
    and "j3 < length (df_columns df)" and "df_columns df ! j3 = ''IC50 (nM)''"
  shows "ProteinSMILESDataset_getitem df idx =
     Inr \<lparr>ligand = df_rows df ! nat (if idx < 0 then int (length (df_rows df)) + idx else idx) ! j1,
          protein = df_rows df ! nat (if idx < 0 then int (length (df_rows df)) + idx else idx) ! j2,
          ic50 = df_rows df ! nat (if idx < 0 then int (length (df_rows df)) + idx else idx) ! j3\<rparr>"
proof -
  define k where "k = nat (if idx < 0 then int (length (df_rows df)) + idx else idx)"
  from assms(2,3) have "k < length (df_rows df)" by (auto simp: k_def)
  then have "df_rows df ! k \<in> set (df_rows df)" by simp
  with assms(1) have len: "length (df_rows df ! k) = length (df_columns df)"
    by (auto simp: well_formed_def list_all_iff)
  from assms(1) have d: "distinct (df_columns df)" by (simp add: well_formed_def)
  from row_get_nth [OF d len assms(4)] assms(5)
  have g1: "row_get (zip (df_columns df) (df_rows df ! k)) ''Ligand SMILES'' = Inr (df_rows df ! k ! j1)"
    by simp
  from row_get_nth [OF d len assms(6)] assms(7)
  have g2: "row_get (zip (df_columns df) (df_rows df ! k)) ''BindingDB Target Chain Sequence'' =
      Inr (df_rows df ! k ! j2)"
    by simp
  from row_get_nth [OF d len assms(8)] assms(9)
  have g3: "row_get (zip (df_columns df) (df_rows df ! k)) ''IC50 (nM)'' = Inr (df_rows df ! k ! j3)"
    by simp
  from iloc_in_range [OF assms(2,3)] have "iloc df idx = Inr (zip (df_columns df) (df_rows df ! k))"
    by (simp add: k_def)
  with g1 g2 g3 show ?thesis
    unfolding k_def [symmetric] by (simp add: ProteinSMILESDataset_getitem_def)
qed

lemma getitem_out_of_range:
  "int (length (df_rows df)) \<le> idx \<or> idx < - int (length (df_rows df)) \<Longrightarrow>
     ProteinSMILESDataset_getitem df idx = Inl IndexError"
  by (simp add: ProteinSMILESDataset_getitem_def iloc_out_of_range)

lemma example_getitem_last:
  "ProteinSMILESDataset_getitem example_df (- 1) =
     Inr \<lparr>ligand = ''CCN'', protein = ''MAL'', ic50 = ''20''\<rparr>"
  by code_simp

lemma example_df_wf: "well_formed example_df"
  by (simp add: well_formed_def example_df_def)

text \<open>
  C5, as stated: \<open>__getitem__\<close> returns the record of row \<open>i\<close> for \<open>i\<close> in \<open>[0, N)\<close> and
  fails with an IndexError for every \<open>i\<close> outside that range. The second part fails: on
  a table of two rows the index \<open>-1\<close> is outside \<open>[0, 2)\<close>, and the call returns the
  record of the last row.
\<close>

theorem C5_getitem_counterexample:
  "\<not> (0 \<le> (- 1 :: int) \<and> - 1 < int (ProteinSMILESDataset_len example_df)) \<and>
   ProteinSMILESDataset_getitem example_df (- 1) =
     Inr \<lparr>ligand = ''CCN'', protein = ''MAL'', ic50 = ''20''\<rparr>"
  using example_getitem_last by simp

text \<open>
  C5, amended. On a table of \<open>N\<close> rows (\<open>__len__\<close> is \<open>N\<close>), \<open>__getitem__\<close> with \<open>-N \<le> i < N\<close>
  returns the record of row \<open>i\<close>, or of row \<open>N + i\<close> when \<open>i\<close> is negative, each field
  taken from the column with the field's label wherever that column stands in the
  table; it fails with IndexError exactly for \<open>i \<ge> N\<close> and \<open>i < -N\<close>; and for an index in
  range it fails with KeyError when one of the three labels is not a column. The
  function only reads the table.
\<close>

theorem C5_getitem:
  "ProteinSMILESDataset_len df = length (df_rows df) \<and>
   (int (length (df_rows df)) \<le> idx \<or> idx < - int (length (df_rows df)) \<longrightarrow>
      ProteinSMILESDataset_getitem df idx = Inl IndexError) \<and>
   (ProteinSMILESDataset_getitem df idx = Inl IndexError \<longrightarrow>
      int (length (df_rows df)) \<le> idx \<or> idx < - int (length (df_rows df))) \<and>
   (well_formed df \<and> - int (length (df_rows df)) \<le> idx \<and> idx < int (length (df_rows df)) \<and>
    j1 < length (df_columns df) \<and> df_columns df ! j1 = ''Ligand SMILES'' \<and>
    j2 < length (df_columns df) \<and> df_columns df ! j2 = ''BindingDB Target Chain Sequence'' \<and>
    j3 < length (df_columns df) \<and> df_columns df ! j3 = ''IC50 (nM)'' \<longrightarrow>
      ProteinSMILESDataset_getitem df idx =
        Inr \<lparr>ligand = df_rows df ! nat (if idx < 0 then int (length (df_rows df)) + idx else idx) ! j1,
             protein = df_rows df ! nat (if idx < 0 then int (length (df_rows df)) + idx else idx) ! j2,
             ic50 = df_rows df ! nat (if idx < 0 then int (length (df_rows df)) + idx else idx) ! j3\<rparr>) \<and>
   (- int (length (df_rows df)) \<le> idx \<and> idx < int (length (df_rows df)) \<and>
    (''Ligand SMILES'' \<notin> set (df_columns df) \<or>
     ''BindingDB Target Chain Sequence'' \<notin> set (df_columns df) \<or>
     ''IC50 (nM)'' \<notin> set (df_columns df)) \<longrightarrow>
      ProteinSMILESDataset_getitem df idx = Inl KeyError)"
proof (intro conjI impI)
  show "ProteinSMILESDataset_len df = length (df_rows df)"
    by (simp add: ProteinSMILESDataset_len_def)
  show "ProteinSMILESDataset_getitem df idx = Inl IndexError"
    if "int (length (df_rows df)) \<le> idx \<or> idx < - int (length (df_rows df))"
    using that by (rule getitem_out_of_range)
  show "int (length (df_rows df)) \<le> idx \<or> idx < - int (length (df_rows df))"
    if "ProteinSMILESDataset_getitem df idx = Inl IndexError"
  proof (rule ccontr)
    assume "\<not> (int (length (df_rows df)) \<le> idx \<or> idx < - int (length (df_rows df)))"
    then have "- int (length (df_rows df)) \<le> idx" "idx < int (length (df_rows df))" by auto
    from iloc_in_range [OF this] that show False
      by (auto simp: ProteinSMILESDataset_getitem_def split: sum.splits dest: row_get_error)
  qed
  show "ProteinSMILESDataset_getitem df idx =
        Inr \<lparr>ligand = df_rows df ! nat (if idx < 0 then int (length (df_rows df)) + idx else idx) ! j1,
             protein = df_rows df ! nat (if idx < 0 then int (length (df_rows df)) + idx else idx) ! j2,
             ic50 = df_rows df ! nat (if idx < 0 then int (length (df_rows df)) + idx else idx) ! j3\<rparr>"
    if "well_formed df \<and> - int (length (df_rows df)) \<le> idx \<and> idx < int (length (df_rows df)) \<and>
    j1 < length (df_columns df) \<and> df_columns df ! j1 = ''Ligand SMILES'' \<and>
    j2 < length (df_columns df) \<and> df_columns df ! j2 = ''BindingDB Target Chain Sequence'' \<and>
    j3 < length (df_columns df) \<and> df_columns df ! j3 = ''IC50 (nM)''"
    using that by (intro getitem_in_range) simp_all
  show "ProteinSMILESDataset_getitem df idx = Inl KeyError"
    if "- int (length (df_rows df)) \<le> idx \<and> idx < int (length (df_rows df)) \<and>
    (''Ligand SMILES'' \<notin> set (df_columns df) \<or>
     ''BindingDB Target Chain Sequence'' \<notin> set (df_columns df) \<or>
     ''IC50 (nM)'' \<notin> set (df_columns df))"
    using that by (intro getitem_missing_column) simp_all
qed

theorem C5_getitem_witness:
  "well_formed example_df \<and>
   ProteinSMILESDataset_len example_df = 2 \<and>
   ProteinSMILESDataset_getitem example_df 0 =
     Inr \<lparr>ligand = ''CCO'', protein = ''MKV'', ic50 = ''10''\<rparr> \<and>
   ProteinSMILESDataset_getitem example_df 2 = Inl IndexError \<and>
   ProteinSMILESDataset_getitem example_df (- 3) = Inl IndexError \<and>
   ProteinSMILESDataset_getitem (example_df\<lparr>df_columns := [''a'', ''b'', ''c'']\<rparr>) 1 = Inl KeyError"
  using C5_getitem [of example_df 0 1 2 0] C5_getitem [of example_df 2]
    C5_getitem [of example_df "- 3"]
    C5_getitem [of "example_df\<lparr>df_columns := [''a'', ''b'', ''c'']\<rparr>" 1]
    example_df_wf
  by (simp add: example_df_def)

section \<open>Collation\<close>
























lemma example_tokens:
  "example_tokenizer [''CCO'', ''C''] [''MKV'', ''MA''] True True ''pt'' =
     Inr [''input_ids'' \<mapsto> Tensor2 [[67, 67, 79, 0, 77, 75, 86], [67, 0, 77, 65, 0, 0, 0]],
          ''token_type_ids'' \<mapsto> Tensor2 [[0, 0, 0, 0, 1, 1, 1], [0, 0, 1, 1, 0, 0, 0]],
          ''attention_mask'' \<mapsto> Tensor2 [[1, 1, 1, 1, 1, 1, 1], [1, 1, 1, 1, 0, 0, 0]]]"
  by (simp add: example_tokenizer_def pad_to_def numeral_eq_Suc)

lemma example_collate_empty_strings:
  "TransformerCollate_call \<lparr>tokenizer = example_tokenizer\<rparr>
       [\<lparr>ligand = '''', protein = '''', ic50 = PyInt 5\<rparr>] =
     Inr [''input_ids'' \<mapsto> Tensor2 [[0]], ''token_type_ids'' \<mapsto> Tensor2 [[0]],
          ''attention_mask'' \<mapsto> Tensor2 [[1]], ''labels'' \<mapsto> Int64Tensor [5]]"
  by (simp add: TransformerCollate_call_def example_tokenizer_def pad_to_def torch_tensor_def)

lemma example_collate:
  "TransformerCollate_call \<lparr>tokenizer = example_tokenizer\<rparr> example_batch =
     Inr [''input_ids'' \<mapsto> Tensor2 [[67, 67, 79, 0, 77, 75, 86], [67, 0, 77, 65, 0, 0, 0]],
          ''token_type_ids'' \<mapsto> Tensor2 [[0, 0, 0, 0, 1, 1, 1], [0, 0, 1, 1, 0, 0, 0]],
          ''attention_mask'' \<mapsto> Tensor2 [[1, 1, 1, 1, 1, 1, 1], [1, 1, 1, 1, 0, 0, 0]],
          ''labels'' \<mapsto> Int64Tensor [10, 20]]"
  using example_tokens
  by (simp add: TransformerCollate_call_def example_batch_def torch_tensor_def)






text \<open>
  C6, as stated: the pipeline fails with a tokenization error when a string of a record
  is empty after stripping. It does not: \<open>__call__\<close> looks at no string, and with a
  tokenizer that accepts every text a record of two empty strings is collated like any
  other.
\<close>

theorem C6_collate_errors_counterexample:
  "\<not> isl (TransformerCollate_call \<lparr>tokenizer = example_tokenizer\<rparr>
            [\<lparr>ligand = '''', protein = '''', ic50 = PyInt 5\<rparr>])"
  using example_collate_empty_strings by simp

text \<open>
  C6, amended. \<open>__call__\<close> performs no check of the strings: whatever they are, when the
  tokenizer accepts the two lists and the tensor of the targets can be built, the call
  returns the batch. The tokenizer resource is loaded in \<open>__init__\<close>: construction fails
  exactly when the loader fails, with the loader's error, and a pipeline that was
  constructed holds the loaded tokenizer, which every later call uses.
\<close>

theorem C6_collate_errors:
  "(tokenizer c (map ligand batches) (map protein batches) True True ''pt'' = Inr enc \<and>
    torch_tensor (map ic50 batches) = Inr lab \<longrightarrow>
      TransformerCollate_call c batches = Inr (enc(''labels'' \<mapsto> lab))) \<and>
   (TransformerCollate_init from_pretrained path = Inl e) = (from_pretrained path = Inl e) \<and>
   (TransformerCollate_init from_pretrained path = Inr c') =
     (from_pretrained path = Inr (tokenizer c'))"
proof (intro conjI impI)
  show "TransformerCollate_call c batches = Inr (enc(''labels'' \<mapsto> lab))"
    if "tokenizer c (map ligand batches) (map protein batches) True True ''pt'' = Inr enc \<and>
        torch_tensor (map ic50 batches) = Inr lab"
    using that by (simp add: TransformerCollate_call_def)
  show "(TransformerCollate_init from_pretrained path = Inl e) = (from_pretrained path = Inl e)"
    by (simp add: TransformerCollate_init_def split: sum.splits)
  show "(TransformerCollate_init from_pretrained path = Inr c') =
     (from_pretrained path = Inr (tokenizer c'))"
    by (cases c') (auto simp: TransformerCollate_init_def split: sum.splits)
qed

theorem C6_collate_errors_witness:
  "tokenizer \<lparr>tokenizer = example_tokenizer\<rparr> (map ligand [\<lparr>ligand = '''', protein = '''', ic50 = PyInt 5\<rparr>])
       (map protein [\<lparr>ligand = '''', protein = '''', ic50 = PyInt 5\<rparr>]) True True ''pt'' =
     Inr [''input_ids'' \<mapsto> Tensor2 [[0]], ''token_type_ids'' \<mapsto> Tensor2 [[0]],
          ''attention_mask'' \<mapsto> Tensor2 [[1]]] \<and>
   torch_tensor (map ic50 [\<lparr>ligand = '''', protein = '''', ic50 = PyInt 5\<rparr>]) =
     Inr (Int64Tensor [5]) \<and>
   TransformerCollate_call \<lparr>tokenizer = example_tokenizer\<rparr>
       [\<lparr>ligand = '''', protein = '''', ic50 = PyInt 5\<rparr>] =
     Inr [''input_ids'' \<mapsto> Tensor2 [[0]], ''token_type_ids'' \<mapsto> Tensor2 [[0]],
          ''attention_mask'' \<mapsto> Tensor2 [[1]], ''labels'' \<mapsto> Int64Tensor [5]] \<and>
   example_from_pretrained ''no such resource'' = Inl OSError \<and>
   TransformerCollate_init example_from_pretrained ''no such resource'' = Inl OSError \<and>
   example_from_pretrained ''Chem_Tokenizer_3'' = Inr (tokenizer \<lparr>tokenizer = example_tokenizer\<rparr>) \<and>
   TransformerCollate_init example_from_pretrained ''Chem_Tokenizer_3'' =
     Inr \<lparr>tokenizer = example_tokenizer\<rparr>"
proof -
  have t: "tokenizer \<lparr>tokenizer = example_tokenizer\<rparr>
       (map ligand [\<lparr>ligand = '''', protein = '''', ic50 = PyInt 5\<rparr>])
       (map protein [\<lparr>ligand = '''', protein = '''', ic50 = PyInt 5\<rparr>]) True True ''pt'' =
     Inr [''input_ids'' \<mapsto> Tensor2 [[0]], ''token_type_ids'' \<mapsto> Tensor2 [[0]],
          ''attention_mask'' \<mapsto> Tensor2 [[1]]]"
    by (simp add: example_tokenizer_def pad_to_def)
  have l: "torch_tensor (map ic50 [\<lparr>ligand = '''', protein = '''', ic50 = PyInt 5\<rparr>]) =
     Inr (Int64Tensor [5])"
    by (simp add: torch_tensor_def)
  from C6_collate_errors [of "\<lparr>tokenizer = example_tokenizer\<rparr>"
      "[\<lparr>ligand = '''', protein = '''', ic50 = PyInt 5\<rparr>]"
      "[''input_ids'' \<mapsto> Tensor2 [[0]], ''token_type_ids'' \<mapsto> Tensor2 [[0]],
        ''attention_mask'' \<mapsto> Tensor2 [[1]]]" "Int64Tensor [5]",
      THEN conjunct1] t l
  have r: "TransformerCollate_call \<lparr>tokenizer = example_tokenizer\<rparr>
       [\<lparr>ligand = '''', protein = '''', ic50 = PyInt 5\<rparr>] =
     Inr [''input_ids'' \<mapsto> Tensor2 [[0]], ''token_type_ids'' \<mapsto> Tensor2 [[0]],
          ''attention_mask'' \<mapsto> Tensor2 [[1]], ''labels'' \<mapsto> Int64Tensor [5]]"
    by blast
  have a: "example_from_pretrained ''no such resource'' = Inl OSError"
    by (simp add: example_from_pretrained_def)
  have b: "example_from_pretrained ''Chem_Tokenizer_3'' =
      Inr (tokenizer \<lparr>tokenizer = example_tokenizer\<rparr>)"
    by (simp add: example_from_pretrained_def)
  from C6_collate_errors [of "\<lparr>tokenizer = example_tokenizer\<rparr>" "[]" _ _ example_from_pretrained
      "''no such resource''" OSError "\<lparr>tokenizer = example_tokenizer\<rparr>",
      THEN conjunct2, THEN conjunct1] a
  have c: "TransformerCollate_init example_from_pretrained ''no such resource'' = Inl OSError"
    by simp
  from C6_collate_errors [of "\<lparr>tokenizer = example_tokenizer\<rparr>" "[]" _ _ example_from_pretrained
      "''Chem_Tokenizer_3''" OSError "\<lparr>tokenizer = example_tokenizer\<rparr>",
      THEN conjunct2, THEN conjunct2] b
  have d: "TransformerCollate_init example_from_pretrained ''Chem_Tokenizer_3'' =
      Inr \<lparr>tokenizer = example_tokenizer\<rparr>"
    by simp
  from t l r a b c d show ?thesis by blast
qed

end
